theory Spec2Isabelle
  imports Complex_Main "HOL-Library.Signed_Division"
begin

section \<open>potfit: reading a tabulated potential (format 3) and the CASTEP converter\<close>

text \<open>
  The development embeds two source files of potfit.

  \<^item> \<^verbatim>\<open>potential_input_f3.c\<close>: \<^verbatim>\<open>read_pot_table3\<close> and \<^verbatim>\<open>init_calc_table3\<close>.
    The preprocessor symbols that select a variant of the function are the fields of the
    record \<open>build\<close>; each \<^verbatim>\<open>#if\<close> of the source is an \<open>if\<close> on them.
  \<^item> \<^verbatim>\<open>castep2force\<close> (Python): \<^verbatim>\<open>Atom\<close>, \<^verbatim>\<open>Box\<close>,
    \<^verbatim>\<open>Configuration\<close> and \<^verbatim>\<open>read_configuration\<close>.

  Conventions of the C model.
  \<^item> A \<^verbatim>\<open>double\<close> that is read from the file is idealised as a \<open>real\<close> (no rounding). A
    \<^verbatim>\<open>double\<close> that the function computes by a division is a \<open>double\<close>: a real, an
    infinity or not a number (see below).
  \<^item> An \<^verbatim>\<open>int\<close> has 32 bits. Where the function computes with values that come from the
    input (sample counts, offsets), the result that is stored is the mathematical result
    wrapped around to 32 bits (\<open>int32\<close>, see below). The loop counters \<^verbatim>\<open>i\<close>, \<^verbatim>\<open>j\<close>,
    \<^verbatim>\<open>k\<close>, which start at 0 and are only incremented, are \<open>nat\<close>.
  \<^item> An array reached through a pointer is a total function from the index to the element;
    the content of freshly allocated memory is a parameter of the model.
  \<^item> \<^verbatim>\<open>error(1, fmt, ...)\<close> prints the diagnostic and terminates the run;
    \<^verbatim>\<open>error(0, fmt, ...)\<close> prints it and returns. A run that terminates in \<^verbatim>\<open>error\<close>
    is the value \<open>Inl msgs\<close>, with the diagnostics printed, in order; a run that returns is
    \<open>Inr\<close> of the final state.
\<close>

subsection \<open>Diagnostics\<close>

datatype arg = AStr string | AInt int | ADbl real

text \<open>\<open>Msg done fmt args\<close> is the call \<^verbatim>\<open>error(done, fmt, args...)\<close>.\<close>

datatype message = Msg int string "arg list"

type_synonym failure = "message list"

definition NL :: string where
  "NL = [CHR 0x0A]"

fun msg_done :: "message \<Rightarrow> int" where
  "msg_done (Msg d f as) = d"

fun msg_fmt :: "message \<Rightarrow> string" where
  "msg_fmt (Msg d f as) = f"

fun msg_args :: "message \<Rightarrow> arg list" where
  "msg_args (Msg d f as) = as"

subsection \<open>The types \<^verbatim>\<open>int\<close> and \<^verbatim>\<open>double\<close>\<close>

text \<open>
  \<open>int32 x\<close> is the value that an operation on \<^verbatim>\<open>int\<close> stores when its mathematical
  result is \<open>x\<close>: \<open>x\<close> itself when it lies in the range of \<^verbatim>\<open>int\<close>, from \<open>- 2 ^ 31\<close> to
  \<open>2 ^ 31 - 1\<close>, and \<open>x\<close> wrapped around (two's complement) otherwise, which is what the
  compiled program computes.
\<close>

definition int32 :: "int \<Rightarrow> int" where
  "int32 x = (x + 2 ^ 31) mod 2 ^ 32 - 2 ^ 31"

text \<open>
  The value of an expression of type \<^verbatim>\<open>double\<close> that has a division in it: a real number,
  or an infinity (its sign is not recorded), or not a number. \<open>double_div x y\<close> is
  \<^verbatim>\<open>x / y\<close> for two finite operands, \<open>double_inv s\<close> is \<^verbatim>\<open>1.0 / s\<close>, and
  \<open>double_add_mul b j s\<close> is \<^verbatim>\<open>b + j * s\<close> for a finite \<open>b\<close> and an \<^verbatim>\<open>int\<close> \<open>j\<close> that is
  not negative. (An operation on finite operands whose result is finite is exact: there is
  no rounding, no overflow and no negative zero.)
\<close>

datatype double = Finite real | Infinite | NaN

definition double_div :: "real \<Rightarrow> real \<Rightarrow> double" where
  "double_div x y = (if y \<noteq> 0 then Finite (x / y) else if x \<noteq> 0 then Infinite else NaN)"

fun double_inv :: "double \<Rightarrow> double" where
  "double_inv (Finite s) = double_div 1 s"
| "double_inv Infinite = Finite 0"
| "double_inv NaN = NaN"

fun double_add_mul :: "real \<Rightarrow> nat \<Rightarrow> double \<Rightarrow> double" where
  "double_add_mul b j (Finite s) = Finite (b + real j * s)"
| "double_add_mul b j Infinite = (if j = 0 then NaN else Infinite)"
| "double_add_mul b j NaN = NaN"

subsection \<open>The potential file as \<^verbatim>\<open>fscanf\<close> sees it\<close>

text \<open>
  The open file \<^verbatim>\<open>pfile\<close> is the list of its remaining whitespace-separated fields.
  \<open>Int_tok n\<close> is a field that both \<^verbatim>\<open>%lf\<close> and \<^verbatim>\<open>%d\<close> convert, \<open>Dbl_tok x\<close> one that
  only \<^verbatim>\<open>%lf\<close> converts, \<open>Bad_tok\<close> one that neither converts. The end of the list is the
  end of the file; the end of a line is white space, which \<^verbatim>\<open>fscanf\<close> skips, and is not
  represented. (A field of which \<^verbatim>\<open>%d\<close> would convert a proper prefix, such as
  \<^verbatim>\<open>2.5\<close>, is not represented.) \<^verbatim>\<open>%d\<close> stores an \<^verbatim>\<open>int\<close>: of an integer out of
  the range of \<^verbatim>\<open>int\<close> it stores the low 32 bits.
\<close>

datatype token = Int_tok int | Dbl_tok real | Bad_tok

fun conv_lf :: "token \<Rightarrow> real option" where
  "conv_lf (Int_tok n) = Some (real_of_int n)"
| "conv_lf (Dbl_tok x) = Some x"
| "conv_lf Bad_tok = None"

fun conv_d :: "token \<Rightarrow> int option" where
  "conv_d (Int_tok n) = Some (int32 n)"
| "conv_d (Dbl_tok x) = None"
| "conv_d Bad_tok = None"

text \<open>
  \<^verbatim>\<open>fscanf(pfile, "%lf %lf %d", ...)\<close>, \<^verbatim>\<open>fscanf(pfile, "%lf %lf\n", ...)\<close> and
  \<^verbatim>\<open>fscanf(pfile, "%lf\n", ...)\<close>. The source only tests whether all conversions were
  made (\<^verbatim>\<open>3 > fscanf(...)\<close>, \<^verbatim>\<open>2 > fscanf(...)\<close>, \<^verbatim>\<open>1 > fscanf(...)\<close>) and terminates
  otherwise, so the result is \<open>None\<close> when fewer were made and the converted values with
  the rest of the file when all were.
\<close>

fun fscanf_lf_lf_d :: "token list \<Rightarrow> ((real \<times> real \<times> int) \<times> token list) option" where
  "fscanf_lf_lf_d (a # b # c # rest) =
     (case conv_lf a of None \<Rightarrow> None
      | Some x \<Rightarrow> (case conv_lf b of None \<Rightarrow> None
      | Some y \<Rightarrow> (case conv_d c of None \<Rightarrow> None
      | Some n \<Rightarrow> Some ((x, y, n), rest))))"
| "fscanf_lf_lf_d _ = None"

fun fscanf_lf_lf :: "token list \<Rightarrow> ((real \<times> real) \<times> token list) option" where
  "fscanf_lf_lf (a # b # rest) =
     (case conv_lf a of None \<Rightarrow> None
      | Some x \<Rightarrow> (case conv_lf b of None \<Rightarrow> None
      | Some y \<Rightarrow> Some ((x, y), rest)))"
| "fscanf_lf_lf _ = None"

fun fscanf_lf :: "token list \<Rightarrow> (real \<times> token list) option" where
  "fscanf_lf (a # rest) =
     (case conv_lf a of None \<Rightarrow> None | Some x \<Rightarrow> Some (x, rest))"
| "fscanf_lf [] = None"

subsection \<open>The state \<^verbatim>\<open>read_pot_table3\<close> works on\<close>

text \<open>
  \<open>pot_table\<close> is \<^verbatim>\<open>g_pot.opt_pot\<close> as the function sees it through
  \<^verbatim>\<open>pt = &g_pot.opt_pot\<close>: the three scalar fields and, for each pointer field, the
  array it points to. (\<^verbatim>\<open>begin\<close> and \<^verbatim>\<open>end\<close> are reserved words, so every field has the
  prefix \<open>pt_\<close>.)
\<close>

record pot_table =
  pt_len :: int
  pt_idxlen :: int
  pt_ncols :: int
  pt_begin :: "nat \<Rightarrow> real"
  pt_end :: "nat \<Rightarrow> real"
  pt_step :: "nat \<Rightarrow> double"
  pt_invstep :: "nat \<Rightarrow> double"
  pt_first :: "nat \<Rightarrow> int"
  pt_last :: "nat \<Rightarrow> int"
  pt_xcoord :: "int \<Rightarrow> double"
  pt_table :: "int \<Rightarrow> real"
  pt_d2tab :: "int \<Rightarrow> real"
  pt_idx :: "nat \<Rightarrow> int"

text \<open>The fields of \<^verbatim>\<open>potential_state\<close> that the function reads.\<close>

record potential_state =
  filename :: string
  num_pots :: nat
  have_gradient :: int

text \<open>
  \<^verbatim>\<open>g_calc.paircol\<close>, \<^verbatim>\<open>g_param.ntypes\<close>, \<^verbatim>\<open>g_pot.invar_pot\<close> and
  \<^verbatim>\<open>g_pot.gradient\<close>: globals the function reads and never writes. \<open>bare_invar_pot\<close> is
  what the identifier \<^verbatim>\<open>invar_pot\<close> denotes where the source writes it without
  \<^verbatim>\<open>g_pot.\<close>, in the branch for \<^verbatim>\<open>MEAMf\<close> of the loop over the MEAM functions f. The
  sources have no declaration of that identifier, so a MEAM build with \<^verbatim>\<open>MEAMf\<close> does not
  compile from them; the field stands for whatever a declaration would provide.
\<close>

record globals =
  paircol :: nat
  ntypes :: nat
  invar_pot :: "nat \<Rightarrow> int"
  gradient :: "nat \<Rightarrow> int"
  bare_invar_pot :: "nat \<Rightarrow> int"

text \<open>The preprocessor symbols the source tests with \<^verbatim>\<open>defined\<close>.\<close>

record build =
  APOT :: bool
  KIM :: bool
  EAM :: bool
  ADP :: bool
  MEAM :: bool
  TBEAM :: bool
  RESCALE :: bool
  MEAMf :: bool

subsection \<open>The info block\<close>

definition info_block_msg :: string where
  "info_block_msg = ''Premature end of potential file %s'' @ NL @ ''(in info block line %d)'' @ NL"

text \<open>
  The assignments of one iteration of the first loop of \<^verbatim>\<open>read_pot_table3\<close>, after
  \<^verbatim>\<open>fscanf\<close> has stored \<open>b\<close>, \<open>e\<close> and \<open>n\<close> in \<^verbatim>\<open>pt->begin[i]\<close>, \<^verbatim>\<open>pt->end[i]\<close>
  and \<^verbatim>\<open>nvals[i]\<close>. The operations \<^verbatim>\<open>nvals[i] - 1\<close>, \<^verbatim>\<open>pt->last[i - 1] + 3\<close>,
  \<^verbatim>\<open>pt->first[i] + nvals[i]\<close> and \<^verbatim>\<open>... - 1\<close> are operations on \<^verbatim>\<open>int\<close>; the
  division and \<^verbatim>\<open>1.0 / pt->step[i]\<close> are operations on \<^verbatim>\<open>double\<close>.
\<close>

definition info_line ::
  "nat \<Rightarrow> real \<Rightarrow> real \<Rightarrow> int \<Rightarrow> pot_table \<times> (nat \<Rightarrow> int) \<Rightarrow> pot_table \<times> (nat \<Rightarrow> int)" where
  "info_line i b e n s =
     (let (pt, nvals) = s;
          pt = pt\<lparr>pt_begin := (pt_begin pt)(i := b), pt_end := (pt_end pt)(i := e)\<rparr>;
          nvals = nvals(i := n);
          pt = pt\<lparr>pt_step := (pt_step pt)(i :=
                 double_div (pt_end pt i - pt_begin pt i) (real_of_int (int32 (nvals i - 1))))\<rparr>;
          pt = pt\<lparr>pt_invstep := (pt_invstep pt)(i := double_inv (pt_step pt i))\<rparr>;
          pt = (if i = 0 then pt\<lparr>pt_first := (pt_first pt)(i := 2)\<rparr>
                else pt\<lparr>pt_first := (pt_first pt)(i := int32 (pt_last pt (i - 1) + 3))\<rparr>);
          pt = pt\<lparr>pt_last := (pt_last pt)(i := int32 (int32 (pt_first pt i + nvals i) - 1))\<rparr>;
          pt = pt\<lparr>pt_len := int32 (pt_first pt i + nvals i)\<rparr>
      in (pt, nvals))"

text \<open>
  The first loop of \<^verbatim>\<open>read_pot_table3\<close>, from the iteration \<open>i\<close> on. The state is the
  file, and the table with the local array \<^verbatim>\<open>nvals\<close>.
\<close>

function read_info_block ::
  "potential_state \<Rightarrow> nat \<Rightarrow> token list \<Rightarrow> pot_table \<times> (nat \<Rightarrow> int) \<Rightarrow>
   failure + token list \<times> pot_table \<times> (nat \<Rightarrow> int)" where
  "read_info_block pstate i pfile s =
     (if i < num_pots pstate then
        (case fscanf_lf_lf_d pfile of
           None \<Rightarrow> Inl [Msg 1 info_block_msg [AStr (filename pstate), AInt (int i)]]
         | Some ((b, e, n), pfile') \<Rightarrow> read_info_block pstate (i + 1) pfile' (info_line i b e n s))
      else Inr (pfile, s))"
  by pat_completeness auto
termination
  by (relation "measure (\<lambda>(pstate, i, pfile, s). num_pots pstate - i)") auto

declare read_info_block.simps [simp del]

subsection \<open>The input loops\<close>

text \<open>
  The local variables of the input loops: the file, the pointer \<^verbatim>\<open>val\<close> (as an offset
  into \<^verbatim>\<open>pt->table\<close>), the counters \<^verbatim>\<open>k\<close> and \<^verbatim>\<open>l\<close>, and the table. The counters
  start at 0 and grow by one for a slot. As long as the loops stay inside the arrays that
  were allocated with \<^verbatim>\<open>pt->len\<close> elements, the counters are below \<^verbatim>\<open>pt->len\<close>, which is
  an \<^verbatim>\<open>int\<close>, so their increments do not wrap around and are written without \<open>int32\<close>.
\<close>

record scan_state =
  s_pfile :: "token list"
  s_val :: int
  s_k :: nat
  s_l :: int
  s_pt :: pot_table

text \<open>
  The source has nine loops over functions, one for each kind of function, that differ in
  the diagnostics, in the gradient stored when the file has none, in the test that decides
  whether a sample point is entered in \<^verbatim>\<open>pt->idx\<close>, and in the check of the domain.
\<close>

datatype kind =
    Pair_pot   \<comment> \<open>pair potentials\<close>
  | Rho        \<comment> \<open>EAM transfer function rho(r)\<close>
  | Embed      \<comment> \<open>EAM embedding function F(n)\<close>
  | TB_rho     \<comment> \<open>TBEAM transfer function rho(r) for the s-band\<close>
  | TB_embed   \<comment> \<open>TBEAM embedding function F(n) for the s-band\<close>
  | ADP_u      \<comment> \<open>ADP dipole function u(r)\<close>
  | ADP_w      \<comment> \<open>ADP quadrupole function w(r)\<close>
  | MEAM_f     \<comment> \<open>MEAM second pair potential f\<close>
  | MEAM_g     \<comment> \<open>MEAM angular part\<close>

definition premature :: "string \<Rightarrow> string" where
  "premature what = ''Premature end of potential file %s'' @ NL @ ''('' @ what @ '')'' @ NL"

fun gradient_msg :: "kind \<Rightarrow> string" where
  "gradient_msg Pair_pot = premature ''no pair gradient pot %d''"
| "gradient_msg Rho = premature ''no rho grad, pot %d''"
| "gradient_msg Embed = premature ''no F grad, pot %d''"
| "gradient_msg TB_rho = premature ''no s-band rho grad, pot %d''"
| "gradient_msg TB_embed = premature ''no s-band F grad, pot %d''"
| "gradient_msg ADP_u = premature ''no ADP-d grad, pot %d''"
| "gradient_msg ADP_w = premature ''no ADP-q grad, pot %d''"
| "gradient_msg MEAM_f = premature ''no MEAM 2nd pair grad, pot %d''"
| "gradient_msg MEAM_g = premature ''no MEAM angle gradient, pot %d''"

text \<open>
  The arguments of the gradient diagnostic. The call in the loop of the angular part passes
  the file name only, although its format has a \<^verbatim>\<open>%d\<close>.
\<close>

fun gradient_args :: "kind \<Rightarrow> potential_state \<Rightarrow> nat \<Rightarrow> arg list" where
  "gradient_args MEAM_g pstate i = [AStr (filename pstate)]"
| "gradient_args kd pstate i = [AStr (filename pstate), AInt (int i)]"

fun values_msg :: "kind \<Rightarrow> string" where
  "values_msg Pair_pot = premature ''no pair values, pot %d line %d''"
| "values_msg Rho = premature ''no rho values pot %d line %d''"
| "values_msg Embed = premature ''no F values, pot %d line %d''"
| "values_msg TB_rho = premature ''no s-band rho values, pot %d line %d''"
| "values_msg TB_embed = premature ''no s-band F values, pot %d line %d''"
| "values_msg ADP_u = premature ''no ADP-d values, pot %d line %d''"
| "values_msg ADP_w = premature ''no ADP-q values, pot %d line %d''"
| "values_msg MEAM_f = premature ''no MEAM 2nd pair values, pot %d line %d''"
| "values_msg MEAM_g = premature ''no MEAM angle values, pot %d line %d''"

text \<open>The two values stored in the gradient slots when \<^verbatim>\<open>pstate->have_gradient\<close> is 0.\<close>

fun no_gradient :: "kind \<Rightarrow> real \<times> real" where
  "no_gradient Pair_pot = (10 ^ 30, 0)"
| "no_gradient Rho = (10 ^ 30, 0)"
| "no_gradient Embed = (10 ^ 30, 10 ^ 30)"
| "no_gradient TB_rho = (10 ^ 30, 0)"
| "no_gradient TB_embed = (10 ^ 30, 10 ^ 30)"
| "no_gradient ADP_u = (10 ^ 30, 0)"
| "no_gradient ADP_w = (10 ^ 30, 10 ^ 30)"
| "no_gradient MEAM_f = (10 ^ 30, 0)"
| "no_gradient MEAM_g = (0, 0)"

text \<open>
  The condition under which sample point \<open>j\<close> of function \<open>i\<close> is entered in
  \<^verbatim>\<open>pt->idx\<close>. \<open>n\<close> is \<^verbatim>\<open>nvals[i]\<close>. In the branch for \<^verbatim>\<open>MEAMf\<close> the source tests
  \<^verbatim>\<open>!invar_pot[i]\<close>, without \<^verbatim>\<open>g_pot.\<close>: that is \<open>bare_invar_pot\<close>.
\<close>

fun sample_free :: "build \<Rightarrow> globals \<Rightarrow> kind \<Rightarrow> nat \<Rightarrow> nat \<Rightarrow> int \<Rightarrow> bool" where
  "sample_free b g Embed i j n = (invar_pot g i = 0)"
| "sample_free b g TB_embed i j n = (invar_pot g i = 0)"
| "sample_free b g MEAM_g i j n = (invar_pot g i = 0)"
| "sample_free b g MEAM_f i j n =
     (if \<not> MEAMf b then
        invar_pot g i = 0 \<and> (int j < n - 1 \<and> (j \<noteq> 0 \<or> i \<noteq> paircol g + 2 * ntypes g))
      else bare_invar_pot g i = 0)"
| "sample_free b g kd i j n = (invar_pot g i = 0 \<and> int j < n - 1)"

text \<open>The statement \<^verbatim>\<open>if (c) pt->idx[k++] = l++; else l++;\<close>.\<close>

definition idx_step :: "bool \<Rightarrow> scan_state \<Rightarrow> scan_state" where
  "idx_step c s =
     (if c then
        s\<lparr>s_pt := (s_pt s)\<lparr>pt_idx := (pt_idx (s_pt s))(s_k s := s_l s)\<rparr>,
          s_k := s_k s + 1, s_l := s_l s + 1\<rparr>
      else s\<lparr>s_l := s_l s + 1\<rparr>)"

text \<open>
  The body of the loop over the sample points, after \<^verbatim>\<open>fscanf\<close> has converted \<open>x\<close> and
  left \<open>pfile'\<close>: the value is stored at \<^verbatim>\<open>val\<close>, \<^verbatim>\<open>val\<close> is incremented, the coordinate
  is stored at \<^verbatim>\<open>pt->xcoord[l]\<close>.
\<close>

definition value_line ::
  "build \<Rightarrow> globals \<Rightarrow> (nat \<Rightarrow> int) \<Rightarrow> kind \<Rightarrow> nat \<Rightarrow> nat \<Rightarrow> real \<Rightarrow> token list \<Rightarrow>
   scan_state \<Rightarrow> scan_state" where
  "value_line b g nvals kd i j x pfile' s =
     (let s = s\<lparr>s_pfile := pfile',
                s_pt := (s_pt s)\<lparr>pt_table := (pt_table (s_pt s))(s_val s := x)\<rparr>\<rparr>;
          s = s\<lparr>s_val := s_val s + 1\<rparr>;
          s = s\<lparr>s_pt := (s_pt s)\<lparr>pt_xcoord := (pt_xcoord (s_pt s))(s_l s :=
                 double_add_mul (pt_begin (s_pt s) i) j (pt_step (s_pt s) i))\<rparr>\<rparr>
      in idx_step (sample_free b g kd i j (nvals i)) s)"

text \<open>The loop \<^verbatim>\<open>for (int j = 0; j < nvals[i]; j++)\<close>, from the iteration \<open>j\<close> on.\<close>

function read_values ::
  "build \<Rightarrow> potential_state \<Rightarrow> globals \<Rightarrow> (nat \<Rightarrow> int) \<Rightarrow> kind \<Rightarrow> nat \<Rightarrow> nat \<Rightarrow>
   scan_state \<Rightarrow> failure + scan_state" where
  "read_values b pstate g nvals kd i j s =
     (if int j < nvals i then
        (case fscanf_lf (s_pfile s) of
           None \<Rightarrow> Inl [Msg 1 (values_msg kd) [AStr (filename pstate), AInt (int i), AInt (int j)]]
         | Some (x, pfile') \<Rightarrow>
             read_values b pstate g nvals kd i (j + 1) (value_line b g nvals kd i j x pfile' s))
      else Inr s)"
  by pat_completeness auto
termination
  by (relation "measure (\<lambda>(b, pstate, g, nvals, kd, i, j, s). nat (nvals i) - j)") auto

declare read_values.simps [simp del]

text \<open>
  The check in the loop of the EAM embedding functions, compiled when \<^verbatim>\<open>RESCALE\<close> is
  not defined.
\<close>

definition F1_msgs :: "real \<Rightarrow> real \<Rightarrow> failure" where
  "F1_msgs b e =
     [Msg 0 (''Your embedding function has insufficient sampling points'' @ NL) [],
      Msg 0 (''For fixing the gauge degrees of freedom potfit needs to calculate F''
             @ [CHR 0x27] @ ''(1.0)!'' @ NL) [],
      Msg 1 (''Please include F(1.0) in your potential definition (currently [%f,%f])'' @ NL)
        [ADbl b, ADbl e]]"

text \<open>
  The gradient of a function: read from the file when \<^verbatim>\<open>pstate->have_gradient\<close> is set,
  the fixed pair of values otherwise. The result is the rest of the file and the two values.
\<close>

definition read_gradient ::
  "potential_state \<Rightarrow> kind \<Rightarrow> nat \<Rightarrow> token list \<Rightarrow> failure + token list \<times> real \<times> real" where
  "read_gradient pstate kd i pfile =
     (if have_gradient pstate \<noteq> 0 then
        (case fscanf_lf_lf pfile of
           None \<Rightarrow> Inl [Msg 1 (gradient_msg kd) (gradient_args kd pstate i)]
         | Some ((x, y), pfile') \<Rightarrow> Inr (pfile', x, y))
      else Inr (pfile, no_gradient kd))"

text \<open>
  The two gradient slots of function \<open>i\<close>: the values are stored at \<^verbatim>\<open>val\<close> and
  \<^verbatim>\<open>val + 1\<close>, \<^verbatim>\<open>val\<close> is advanced by 2, and each slot is entered in \<^verbatim>\<open>pt->idx\<close> or
  skipped.
\<close>

definition gradient_slots ::
  "globals \<Rightarrow> nat \<Rightarrow> token list \<Rightarrow> real \<Rightarrow> real \<Rightarrow> scan_state \<Rightarrow> scan_state" where
  "gradient_slots g i pfile' x y s =
     (let s = s\<lparr>s_pfile := pfile',
                s_pt := (s_pt s)\<lparr>pt_table := (pt_table (s_pt s))(s_val s := x, s_val s + 1 := y)\<rparr>\<rparr>;
          s = s\<lparr>s_val := s_val s + 2\<rparr>;
          s = idx_step (invar_pot g i = 0 \<and> drop_bit 1 (gradient g i) \<noteq> 0) s
      in idx_step (invar_pot g i = 0 \<and> gradient g i smod 2 \<noteq> 0) s)"

text \<open>The body of a loop over functions, for the function \<open>i\<close> of kind \<open>kd\<close>.\<close>

definition read_function ::
  "build \<Rightarrow> potential_state \<Rightarrow> globals \<Rightarrow> (nat \<Rightarrow> int) \<Rightarrow> kind \<Rightarrow> nat \<Rightarrow>
   scan_state \<Rightarrow> failure + scan_state" where
  "read_function b pstate g nvals kd i s =
     (if kd = Embed \<and> \<not> RESCALE b \<and> (pt_begin (s_pt s) i > 1 \<or> pt_end (s_pt s) i < 1) then
        Inl (F1_msgs (pt_begin (s_pt s) i) (pt_end (s_pt s) i))
      else
        (case read_gradient pstate kd i (s_pfile s) of
           Inl e \<Rightarrow> Inl e
         | Inr (pfile', x, y) \<Rightarrow>
             read_values b pstate g nvals kd i 0 (gradient_slots g i pfile' x y s)))"

text \<open>A loop \<^verbatim>\<open>for (int i = lo; i < hi; i++)\<close> over functions of kind \<open>kd\<close>, from \<open>i\<close> on.\<close>

function read_functions ::
  "build \<Rightarrow> potential_state \<Rightarrow> globals \<Rightarrow> (nat \<Rightarrow> int) \<Rightarrow> kind \<Rightarrow> nat \<Rightarrow> nat \<Rightarrow>
   scan_state \<Rightarrow> failure + scan_state" where
  "read_functions b pstate g nvals kd i hi s =
     (if i < hi then
        (case read_function b pstate g nvals kd i s of
           Inl e \<Rightarrow> Inl e
         | Inr s' \<Rightarrow> read_functions b pstate g nvals kd (i + 1) hi s')
      else Inr s)"
  by pat_completeness auto
termination
  by (relation "measure (\<lambda>(b, pstate, g, nvals, kd, i, hi, s). hi - i)") auto

declare read_functions.simps [simp del]

subsection \<open>\<^verbatim>\<open>read_pot_table3\<close>\<close>

text \<open>Sequencing of two parts of the function, the second skipped when the first terminates the run.\<close>

definition and_then :: "failure + 'a \<Rightarrow> ('a \<Rightarrow> failure + 'b) \<Rightarrow> failure + 'b" where
  "and_then r f = (case r of Inl e \<Rightarrow> Inl e | Inr s \<Rightarrow> f s)"

text \<open>
  What the function finds in memory it does not initialise: the local array \<^verbatim>\<open>nvals\<close> and
  the four arrays it allocates with \<^verbatim>\<open>Malloc\<close>.
\<close>

record fresh_memory =
  new_nvals :: "nat \<Rightarrow> int"
  new_table :: "int \<Rightarrow> real"
  new_xcoord :: "int \<Rightarrow> double"
  new_d2tab :: "int \<Rightarrow> real"
  new_idx :: "nat \<Rightarrow> int"

text \<open>The loops compiled under \<^verbatim>\<open>#if defined EAM || defined ADP || defined MEAM\<close>.\<close>

definition read_eam ::
  "build \<Rightarrow> potential_state \<Rightarrow> globals \<Rightarrow> (nat \<Rightarrow> int) \<Rightarrow> scan_state \<Rightarrow> failure + scan_state" where
  "read_eam b pstate g nvals s =
     and_then (read_functions b pstate g nvals Rho (paircol g) (paircol g + ntypes g) s) (\<lambda>s.
     and_then (read_functions b pstate g nvals Embed
                 (paircol g + ntypes g) (paircol g + 2 * ntypes g) s) (\<lambda>s.
     if TBEAM b then
       and_then (read_functions b pstate g nvals TB_rho
                   (paircol g + 2 * ntypes g) (paircol g + 3 * ntypes g) s) (\<lambda>s.
       read_functions b pstate g nvals TB_embed
         (paircol g + 3 * ntypes g) (paircol g + 4 * ntypes g) s)
     else Inr s))"

text \<open>The loops compiled under \<^verbatim>\<open>#if defined(ADP)\<close>.\<close>

definition read_adp ::
  "build \<Rightarrow> potential_state \<Rightarrow> globals \<Rightarrow> (nat \<Rightarrow> int) \<Rightarrow> scan_state \<Rightarrow> failure + scan_state" where
  "read_adp b pstate g nvals s =
     and_then (read_functions b pstate g nvals ADP_u
                 (paircol g + 2 * ntypes g) (2 * (paircol g + ntypes g)) s) (\<lambda>s.
     read_functions b pstate g nvals ADP_w
       (2 * (paircol g + ntypes g)) (3 * paircol g + 2 * ntypes g) s)"

text \<open>The loops compiled under \<^verbatim>\<open>#if defined(MEAM)\<close>.\<close>

definition read_meam ::
  "build \<Rightarrow> potential_state \<Rightarrow> globals \<Rightarrow> (nat \<Rightarrow> int) \<Rightarrow> scan_state \<Rightarrow> failure + scan_state" where
  "read_meam b pstate g nvals s =
     and_then (read_functions b pstate g nvals MEAM_f
                 (paircol g + 2 * ntypes g) (2 * paircol g + 2 * ntypes g) s) (\<lambda>s.
     read_functions b pstate g nvals MEAM_g
       (2 * paircol g + 2 * ntypes g) (2 * paircol g + 3 * ntypes g) s)"

text \<open>
  The input loops of \<^verbatim>\<open>read_pot_table3\<close>, from \<^verbatim>\<open>/* read pair potentials */\<close> to the
  end of the last conditional block.
\<close>

definition read_tables ::
  "build \<Rightarrow> potential_state \<Rightarrow> globals \<Rightarrow> (nat \<Rightarrow> int) \<Rightarrow> scan_state \<Rightarrow> failure + scan_state" where
  "read_tables b pstate g nvals s =
     and_then (read_functions b pstate g nvals Pair_pot 0 (paircol g) s) (\<lambda>s.
     and_then (if EAM b \<or> ADP b \<or> MEAM b then read_eam b pstate g nvals s else Inr s) (\<lambda>s.
     and_then (if ADP b then read_adp b pstate g nvals s else Inr s) (\<lambda>s.
     if MEAM b then read_meam b pstate g nvals s else Inr s)))"

text \<open>The allocation of the function table and the initialisation of \<^verbatim>\<open>val\<close>, \<^verbatim>\<open>k\<close>, \<^verbatim>\<open>l\<close>.\<close>

definition allocate :: "fresh_memory \<Rightarrow> token list \<Rightarrow> pot_table \<Rightarrow> scan_state" where
  "allocate fresh pfile pt =
     \<lparr>s_pfile = pfile, s_val = 0, s_k = 0, s_l = 0,
      s_pt = pt\<lparr>pt_table := new_table fresh, pt_xcoord := new_xcoord fresh,
                pt_d2tab := new_d2tab fresh, pt_idx := new_idx fresh\<rparr>\<rparr>"

text \<open>
  \<^verbatim>\<open>read_pot_table3\<close>. The parameters are those of the C function and the state it reads:
  the build, the globals, the memory it does not initialise, and \<^verbatim>\<open>g_pot.opt_pot\<close> as
  the caller left it (\<open>pt\<close>). The result is \<^verbatim>\<open>g_pot.opt_pot\<close> when the function returns.
  The final call \<^verbatim>\<open>init_calc_table3()\<close> does not change \<^verbatim>\<open>g_pot.opt_pot\<close>; it is modelled
  below, on the global state.
\<close>

definition read_pot_table3 ::
  "build \<Rightarrow> globals \<Rightarrow> fresh_memory \<Rightarrow> pot_table \<Rightarrow> string \<Rightarrow> token list \<Rightarrow> potential_state \<Rightarrow>
   failure + pot_table" where
  "read_pot_table3 b g fresh pt potential_filename pfile pstate =
     (if APOT b \<or> KIM b then
        Inl [Msg 1 ''Unsupported potential format in %s'' [AStr potential_filename]]
      else
        and_then (read_info_block pstate 0 pfile (pt, new_nvals fresh)) (\<lambda>(pfile, pt, nvals).
        and_then (read_tables b pstate g nvals (allocate fresh pfile pt)) (\<lambda>s.
        Inr ((s_pt s)\<lparr>pt_idxlen := int (s_k s)\<rparr>))))"

subsection \<open>The global state: \<^verbatim>\<open>g_pot.opt_pot\<close>, \<^verbatim>\<open>g_pot.calc_pot\<close> and \<^verbatim>\<open>init_calc_table3\<close>\<close>

text \<open>
  \<^verbatim>\<open>init_calc_table3\<close> copies pointers, so here the struct \<^verbatim>\<open>pot_table_t\<close> is modelled as
  the C program has it: three integers and ten pointers. A pointer is the address of an
  array; the memory maps the address of an array of \<^verbatim>\<open>double\<close> (of \<^verbatim>\<open>int\<close>) to its
  content. (The fields are those the two functions access; the prefix is \<open>t_\<close>.)
  An element of an array of \<^verbatim>\<open>double\<close> is a \<open>double\<close>; seen through one of the fields
  \<^verbatim>\<open>begin\<close>, \<^verbatim>\<open>end\<close>, \<^verbatim>\<open>table\<close> and \<^verbatim>\<open>d2tab\<close>, whose type above is \<open>real\<close>, it is
  read as its \<open>finite_value\<close>.
\<close>

type_synonym addr = nat

record pot_table_t =
  t_len :: int
  t_idxlen :: int
  t_ncols :: int
  t_begin :: addr
  t_end :: addr
  t_step :: addr
  t_invstep :: addr
  t_first :: addr
  t_last :: addr
  t_xcoord :: addr
  t_table :: addr
  t_d2tab :: addr
  t_idx :: addr

record memory =
  doubles :: "addr \<Rightarrow> int \<Rightarrow> double"
  ints :: "addr \<Rightarrow> int \<Rightarrow> int"
  brk :: addr

record g_pot_t =
  opt_pot :: pot_table_t
  calc_pot :: pot_table_t

record program_state =
  g_pot :: g_pot_t
  heap :: memory

text \<open>\<^verbatim>\<open>init_calc_table3\<close>: thirteen assignments to the fields of \<^verbatim>\<open>g_pot.calc_pot\<close>.\<close>

definition init_calc_table3 :: "program_state \<Rightarrow> program_state" where
  "init_calc_table3 st =
     (let st = st\<lparr>g_pot := (g_pot st)\<lparr>calc_pot :=
                 (calc_pot (g_pot st))\<lparr>t_len := t_len (opt_pot (g_pot st))\<rparr>\<rparr>\<rparr>;
          st = st\<lparr>g_pot := (g_pot st)\<lparr>calc_pot :=
                 (calc_pot (g_pot st))\<lparr>t_idxlen := t_idxlen (opt_pot (g_pot st))\<rparr>\<rparr>\<rparr>;
          st = st\<lparr>g_pot := (g_pot st)\<lparr>calc_pot :=
                 (calc_pot (g_pot st))\<lparr>t_ncols := t_ncols (opt_pot (g_pot st))\<rparr>\<rparr>\<rparr>;
          st = st\<lparr>g_pot := (g_pot st)\<lparr>calc_pot :=
                 (calc_pot (g_pot st))\<lparr>t_begin := t_begin (opt_pot (g_pot st))\<rparr>\<rparr>\<rparr>;
          st = st\<lparr>g_pot := (g_pot st)\<lparr>calc_pot :=
                 (calc_pot (g_pot st))\<lparr>t_end := t_end (opt_pot (g_pot st))\<rparr>\<rparr>\<rparr>;
          st = st\<lparr>g_pot := (g_pot st)\<lparr>calc_pot :=
                 (calc_pot (g_pot st))\<lparr>t_step := t_step (opt_pot (g_pot st))\<rparr>\<rparr>\<rparr>;
          st = st\<lparr>g_pot := (g_pot st)\<lparr>calc_pot :=
                 (calc_pot (g_pot st))\<lparr>t_invstep := t_invstep (opt_pot (g_pot st))\<rparr>\<rparr>\<rparr>;
          st = st\<lparr>g_pot := (g_pot st)\<lparr>calc_pot :=
                 (calc_pot (g_pot st))\<lparr>t_first := t_first (opt_pot (g_pot st))\<rparr>\<rparr>\<rparr>;
          st = st\<lparr>g_pot := (g_pot st)\<lparr>calc_pot :=
                 (calc_pot (g_pot st))\<lparr>t_last := t_last (opt_pot (g_pot st))\<rparr>\<rparr>\<rparr>;
          st = st\<lparr>g_pot := (g_pot st)\<lparr>calc_pot :=
                 (calc_pot (g_pot st))\<lparr>t_xcoord := t_xcoord (opt_pot (g_pot st))\<rparr>\<rparr>\<rparr>;
          st = st\<lparr>g_pot := (g_pot st)\<lparr>calc_pot :=
                 (calc_pot (g_pot st))\<lparr>t_table := t_table (opt_pot (g_pot st))\<rparr>\<rparr>\<rparr>;
          st = st\<lparr>g_pot := (g_pot st)\<lparr>calc_pot :=
                 (calc_pot (g_pot st))\<lparr>t_d2tab := t_d2tab (opt_pot (g_pot st))\<rparr>\<rparr>\<rparr>
      in st\<lparr>g_pot := (g_pot st)\<lparr>calc_pot :=
                 (calc_pot (g_pot st))\<lparr>t_idx := t_idx (opt_pot (g_pot st))\<rparr>\<rparr>\<rparr>)"

text \<open>
  The table seen through a struct in a memory: the arrays its pointers refer to. This is
  the view \<open>read_pot_table3\<close> above works on.
\<close>

fun finite_value :: "double \<Rightarrow> real" where
  "finite_value (Finite x) = x"
| "finite_value Infinite = 0"
| "finite_value NaN = 0"

definition deref :: "memory \<Rightarrow> pot_table_t \<Rightarrow> pot_table" where
  "deref m t =
     \<lparr>pt_len = t_len t, pt_idxlen = t_idxlen t, pt_ncols = t_ncols t,
      pt_begin = (\<lambda>i. finite_value (doubles m (t_begin t) (int i))),
      pt_end = (\<lambda>i. finite_value (doubles m (t_end t) (int i))),
      pt_step = (\<lambda>i. doubles m (t_step t) (int i)),
      pt_invstep = (\<lambda>i. doubles m (t_invstep t) (int i)),
      pt_first = (\<lambda>i. ints m (t_first t) (int i)),
      pt_last = (\<lambda>i. ints m (t_last t) (int i)),
      pt_xcoord = doubles m (t_xcoord t),
      pt_table = (\<lambda>i. finite_value (doubles m (t_table t) i)),
      pt_d2tab = (\<lambda>i. finite_value (doubles m (t_d2tab t) i)),
      pt_idx = (\<lambda>k. ints m (t_idx t) (int k))\<rparr>"

text \<open>
  The assignments \<^verbatim>\<open>p[i] = v\<close> to an array of \<^verbatim>\<open>double\<close>, for a finite \<open>v\<close>, and to an
  array of \<^verbatim>\<open>int\<close>.
\<close>

definition write_double :: "addr \<Rightarrow> int \<Rightarrow> real \<Rightarrow> memory \<Rightarrow> memory" where
  "write_double p i v m = m\<lparr>doubles := (doubles m)(p := (doubles m p)(i := Finite v))\<rparr>"

definition write_int :: "addr \<Rightarrow> int \<Rightarrow> int \<Rightarrow> memory \<Rightarrow> memory" where
  "write_int p i v m = m\<lparr>ints := (ints m)(p := (ints m p)(i := v))\<rparr>"

text \<open>
  \<^verbatim>\<open>Malloc\<close> (of \<^verbatim>\<open>memory.c\<close>, not among the sources) is taken to return the address of
  a new array, different from every address in use, with unspecified content.
\<close>

definition Malloc :: "memory \<Rightarrow> addr \<times> memory" where
  "Malloc m = (brk m, m\<lparr>brk := brk m + 1\<rparr>)"

text \<open>
  The arrays of a table put in memory at the addresses of a struct: the entries at the
  indices \<open>0, 1, 2, ...\<close> of the arrays indexed by functions, the whole array for the others.
\<close>

definition from_nat :: "(nat \<Rightarrow> 'a) \<Rightarrow> (int \<Rightarrow> 'a) \<Rightarrow> int \<Rightarrow> 'a" where
  "from_nat f old i = (if 0 \<le> i then f (nat i) else old i)"

definition write_back :: "pot_table \<Rightarrow> pot_table_t \<Rightarrow> memory \<Rightarrow> memory" where
  "write_back pt t m =
     (let m = m\<lparr>doubles := (doubles m)(t_begin t :=
                 from_nat (\<lambda>i. Finite (pt_begin pt i)) (doubles m (t_begin t)))\<rparr>;
          m = m\<lparr>doubles := (doubles m)(t_end t :=
                 from_nat (\<lambda>i. Finite (pt_end pt i)) (doubles m (t_end t)))\<rparr>;
          m = m\<lparr>doubles := (doubles m)(t_step t := from_nat (pt_step pt) (doubles m (t_step t)))\<rparr>;
          m = m\<lparr>doubles := (doubles m)(t_invstep t :=
                 from_nat (pt_invstep pt) (doubles m (t_invstep t)))\<rparr>;
          m = m\<lparr>ints := (ints m)(t_first t := from_nat (pt_first pt) (ints m (t_first t)))\<rparr>;
          m = m\<lparr>ints := (ints m)(t_last t := from_nat (pt_last pt) (ints m (t_last t)))\<rparr>;
          m = m\<lparr>doubles := (doubles m)(t_xcoord t := pt_xcoord pt)\<rparr>;
          m = m\<lparr>doubles := (doubles m)(t_table t := (\<lambda>i. Finite (pt_table pt i)))\<rparr>;
          m = m\<lparr>doubles := (doubles m)(t_d2tab t := (\<lambda>i. Finite (pt_d2tab pt i)))\<rparr>
      in m\<lparr>ints := (ints m)(t_idx t := from_nat (pt_idx pt) (ints m (t_idx t)))\<rparr>)"

text \<open>
  The memory that \<^verbatim>\<open>read_pot_table3\<close> does not initialise, for a call in the memory
  \<open>m\<close>: the local array \<^verbatim>\<open>nvals\<close> holds \<open>nvals0\<close> on entry, and the four calls of
  \<^verbatim>\<open>Malloc\<close> return the arrays at \<open>brk m\<close>, ..., \<open>brk m + 3\<close>.
\<close>

definition fresh_of :: "(nat \<Rightarrow> int) \<Rightarrow> memory \<Rightarrow> fresh_memory" where
  "fresh_of nvals0 m =
     \<lparr>new_nvals = nvals0, new_table = (\<lambda>i. finite_value (doubles m (brk m) i)),
      new_xcoord = doubles m (brk m + 1),
      new_d2tab = (\<lambda>i. finite_value (doubles m (brk m + 2) i)),
      new_idx = (\<lambda>k. ints m (brk m + 3) (int k))\<rparr>"

text \<open>
  A call of \<^verbatim>\<open>read_pot_table3\<close> on the global state. The body of the function is
  \<open>read_pot_table3\<close> above, run on the table seen through \<^verbatim>\<open>g_pot.opt_pot\<close>; the four
  arrays it allocates are new arrays of the memory; when it returns, the table is in memory
  at the addresses of \<^verbatim>\<open>g_pot.opt_pot\<close>, and the last statement has called
  \<^verbatim>\<open>init_calc_table3\<close>. (The arrays that \<^verbatim>\<open>g_pot.opt_pot\<close> points to on entry are taken to
  be distinct arrays.)
\<close>

definition read_pot_table3_call ::
  "build \<Rightarrow> globals \<Rightarrow> (nat \<Rightarrow> int) \<Rightarrow> string \<Rightarrow> token list \<Rightarrow> potential_state \<Rightarrow>
   program_state \<Rightarrow> failure + program_state" where
  "read_pot_table3_call b g nvals0 potential_filename pfile pstate st =
     (let opt = opt_pot (g_pot st);
          fresh = fresh_of nvals0 (heap st);
          (a_table, m) = Malloc (heap st);
          (a_xcoord, m) = Malloc m;
          (a_d2tab, m) = Malloc m;
          (a_idx, m) = Malloc m
      in case read_pot_table3 b g fresh (deref m opt) potential_filename pfile pstate of
           Inl e \<Rightarrow> Inl e
         | Inr pt \<Rightarrow>
             let opt = opt\<lparr>t_len := pt_len pt, t_idxlen := pt_idxlen pt, t_xcoord := a_xcoord,
                           t_table := a_table, t_d2tab := a_d2tab, t_idx := a_idx\<rparr>
             in Inr (init_calc_table3
                  \<lparr>g_pot = (g_pot st)\<lparr>opt_pot := opt\<rparr>, heap = write_back pt opt m\<rparr>))"

text \<open>
  The pointers of a struct refer to distinct arrays that are allocated in the memory: what
  the caller of \<^verbatim>\<open>read_pot_table3\<close> provides for the six arrays of the info block.
\<close>

definition info_arrays_allocated :: "memory \<Rightarrow> pot_table_t \<Rightarrow> bool" where
  "info_arrays_allocated m t =
     (distinct [t_begin t, t_end t, t_step t, t_invstep t] \<and> t_first t \<noteq> t_last t \<and>
      t_begin t < brk m \<and> t_end t < brk m \<and> t_step t < brk m \<and> t_invstep t < brk m \<and>
      t_first t < brk m \<and> t_last t < brk m)"

subsection \<open>Notions used to state the properties\<close>

text \<open>The entries of \<^verbatim>\<open>pt->idx\<close> written so far: those below \<^verbatim>\<open>k\<close>.\<close>

definition stored :: "scan_state \<Rightarrow> int list" where
  "stored s = map (pt_idx (s_pt s)) [0..<s_k s]"

text \<open>The free index set of a table: the first \<^verbatim>\<open>idxlen\<close> entries of \<^verbatim>\<open>idx\<close>.\<close>

definition free_indices :: "pot_table \<Rightarrow> int list" where
  "free_indices pt = map (pt_idx pt) [0..<nat (pt_idxlen pt)]"

text \<open>Two tables agree on the fields that the input loops only read.\<close>

definition same_info :: "pot_table \<Rightarrow> pot_table \<Rightarrow> bool" where
  "same_info pt pt' =
     (pt_len pt' = pt_len pt \<and> pt_idxlen pt' = pt_idxlen pt \<and> pt_ncols pt' = pt_ncols pt \<and>
      pt_begin pt' = pt_begin pt \<and> pt_end pt' = pt_end pt \<and> pt_step pt' = pt_step pt \<and>
      pt_invstep pt' = pt_invstep pt \<and> pt_first pt' = pt_first pt \<and> pt_last pt' = pt_last pt \<and>
      pt_d2tab pt' = pt_d2tab pt)"

text \<open>
  The input loops as one sequence of function bodies: \<open>read_blocks\<close> runs the body for
  each (kind, function) of a list, and \<open>layout\<close> is the list the loops of
  \<open>read_tables\<close> go through.
\<close>

fun read_blocks ::
  "build \<Rightarrow> potential_state \<Rightarrow> globals \<Rightarrow> (nat \<Rightarrow> int) \<Rightarrow> (kind \<times> nat) list \<Rightarrow>
   scan_state \<Rightarrow> failure + scan_state" where
  "read_blocks b pstate g nvals [] s = Inr s"
| "read_blocks b pstate g nvals ((kd, i) # blks) s =
     and_then (read_function b pstate g nvals kd i s) (read_blocks b pstate g nvals blks)"

definition layout :: "build \<Rightarrow> globals \<Rightarrow> (kind \<times> nat) list" where
  "layout b g =
     map (\<lambda>i. (Pair_pot, i)) [0..<paircol g] @
     (if EAM b \<or> ADP b \<or> MEAM b then
        map (\<lambda>i. (Rho, i)) [paircol g..<paircol g + ntypes g] @
        map (\<lambda>i. (Embed, i)) [paircol g + ntypes g..<paircol g + 2 * ntypes g] @
        (if TBEAM b then
           map (\<lambda>i. (TB_rho, i)) [paircol g + 2 * ntypes g..<paircol g + 3 * ntypes g] @
           map (\<lambda>i. (TB_embed, i)) [paircol g + 3 * ntypes g..<paircol g + 4 * ntypes g]
         else [])
      else []) @
     (if ADP b then
        map (\<lambda>i. (ADP_u, i)) [paircol g + 2 * ntypes g..<2 * (paircol g + ntypes g)] @
        map (\<lambda>i. (ADP_w, i)) [2 * (paircol g + ntypes g)..<3 * paircol g + 2 * ntypes g]
      else []) @
     (if MEAM b then
        map (\<lambda>i. (MEAM_f, i)) [paircol g + 2 * ntypes g..<2 * paircol g + 2 * ntypes g] @
        map (\<lambda>i. (MEAM_g, i)) [2 * paircol g + 2 * ntypes g..<2 * paircol g + 3 * ntypes g]
      else [])"

text \<open>
  The slots that the body for function \<open>i\<close> of kind \<open>kd\<close> enters in \<^verbatim>\<open>pt->idx\<close> when it
  starts with \<^verbatim>\<open>l = l0\<close>: the two gradient slots \<open>l0\<close> and \<open>l0 + 1\<close>, then the sample
  slots \<open>l0 + 2 + j\<close>, each under its condition.
\<close>

definition sample_slots ::
  "build \<Rightarrow> globals \<Rightarrow> (nat \<Rightarrow> int) \<Rightarrow> kind \<Rightarrow> nat \<Rightarrow> int \<Rightarrow> nat \<Rightarrow> int list" where
  "sample_slots b g nvals kd i l0 n =
     map (\<lambda>j. l0 + int j) (filter (\<lambda>j. sample_free b g kd i j (nvals i)) [0..<n])"

definition function_slots ::
  "build \<Rightarrow> globals \<Rightarrow> (nat \<Rightarrow> int) \<Rightarrow> kind \<Rightarrow> nat \<Rightarrow> int \<Rightarrow> int list" where
  "function_slots b g nvals kd i l0 =
     (if invar_pot g i = 0 \<and> drop_bit 1 (gradient g i) \<noteq> 0 then [l0] else []) @
     (if invar_pot g i = 0 \<and> gradient g i smod 2 \<noteq> 0 then [l0 + 1] else []) @
     sample_slots b g nvals kd i (l0 + 2) (nat (nvals i))"

text \<open>The number of slots a body advances \<^verbatim>\<open>l\<close> by, and the slots of a sequence of bodies.\<close>

definition function_len :: "(nat \<Rightarrow> int) \<Rightarrow> nat \<Rightarrow> int" where
  "function_len nvals i = 2 + int (nat (nvals i))"

fun blocks_len :: "(nat \<Rightarrow> int) \<Rightarrow> (kind \<times> nat) list \<Rightarrow> int" where
  "blocks_len nvals [] = 0"
| "blocks_len nvals ((kd, i) # blks) = function_len nvals i + blocks_len nvals blks"

fun blocks_slots ::
  "build \<Rightarrow> globals \<Rightarrow> (nat \<Rightarrow> int) \<Rightarrow> (kind \<times> nat) list \<Rightarrow> int \<Rightarrow> int list" where
  "blocks_slots b g nvals [] l0 = []"
| "blocks_slots b g nvals ((kd, i) # blks) l0 =
     function_slots b g nvals kd i l0 @ blocks_slots b g nvals blks (l0 + function_len nvals i)"

text \<open>The number of fields of the file a body converts.\<close>

definition function_fields :: "potential_state \<Rightarrow> (nat \<Rightarrow> int) \<Rightarrow> nat \<Rightarrow> nat" where
  "function_fields pstate nvals i = (if have_gradient pstate \<noteq> 0 then 2 else 0) + nat (nvals i)"

fun blocks_fields :: "potential_state \<Rightarrow> (nat \<Rightarrow> int) \<Rightarrow> (kind \<times> nat) list \<Rightarrow> nat" where
  "blocks_fields pstate nvals [] = 0"
| "blocks_fields pstate nvals ((kd, i) # blks) =
     function_fields pstate nvals i + blocks_fields pstate nvals blks"

text \<open>What holds after \<open>j\<close> iterations of the loop over the sample points of function
  \<open>i\<close> that started in the state \<open>s0\<close>.\<close>

definition values_inv ::
  "build \<Rightarrow> globals \<Rightarrow> (nat \<Rightarrow> int) \<Rightarrow> kind \<Rightarrow> nat \<Rightarrow> scan_state \<Rightarrow> nat \<Rightarrow> scan_state \<Rightarrow> bool" where
  "values_inv b g nvals kd i s0 j s =
     (s_l s = s_l s0 + int j \<and> s_val s = s_val s0 + int j \<and>
      stored s = stored s0 @ sample_slots b g nvals kd i (s_l s0) j \<and>
      s_pfile s = drop j (s_pfile s0) \<and> j \<le> length (s_pfile s0) \<and>
      same_info (s_pt s0) (s_pt s) \<and>
      (\<forall>j'<j. pt_xcoord (s_pt s) (s_l s0 + int j') =
                double_add_mul (pt_begin (s_pt s0) i) j' (pt_step (s_pt s0) i)) \<and>
      (\<forall>x. x < s_l s0 \<or> s_l s0 + int j \<le> x \<longrightarrow> pt_xcoord (s_pt s) x = pt_xcoord (s_pt s0) x))"

text \<open>What holds when the body for function \<open>i\<close> of kind \<open>kd\<close>, started in \<open>s\<close>, ends in \<open>s'\<close>.\<close>

definition function_post ::
  "build \<Rightarrow> potential_state \<Rightarrow> globals \<Rightarrow> (nat \<Rightarrow> int) \<Rightarrow> kind \<Rightarrow> nat \<Rightarrow>
   scan_state \<Rightarrow> scan_state \<Rightarrow> bool" where
  "function_post b pstate g nvals kd i s s' =
     (s_l s' = s_l s + function_len nvals i \<and> s_val s' = s_val s + function_len nvals i \<and>
      stored s' = stored s @ function_slots b g nvals kd i (s_l s) \<and>
      s_pfile s' = drop (function_fields pstate nvals i) (s_pfile s) \<and>
      function_fields pstate nvals i \<le> length (s_pfile s) \<and>
      same_info (s_pt s) (s_pt s') \<and>
      (\<forall>j<nat (nvals i). pt_xcoord (s_pt s') (s_l s + 2 + int j) =
                double_add_mul (pt_begin (s_pt s) i) j (pt_step (s_pt s) i)) \<and>
      (\<forall>x. x < s_l s + 2 \<or> s_l s + function_len nvals i \<le> x \<longrightarrow>
            pt_xcoord (s_pt s') x = pt_xcoord (s_pt s) x) \<and>
      (kd = Embed \<and> \<not> RESCALE b \<longrightarrow> \<not> (pt_begin (s_pt s) i > 1 \<or> pt_end (s_pt s) i < 1)))"

text \<open>What holds when a sequence of bodies, started in \<open>s\<close>, ends in \<open>s'\<close>.\<close>

definition blocks_post ::
  "build \<Rightarrow> potential_state \<Rightarrow> globals \<Rightarrow> (nat \<Rightarrow> int) \<Rightarrow> (kind \<times> nat) list \<Rightarrow>
   scan_state \<Rightarrow> scan_state \<Rightarrow> bool" where
  "blocks_post b pstate g nvals blks s s' =
     (s_l s' = s_l s + blocks_len nvals blks \<and> s_val s' = s_val s + blocks_len nvals blks \<and>
      stored s' = stored s @ blocks_slots b g nvals blks (s_l s) \<and>
      s_pfile s' = drop (blocks_fields pstate nvals blks) (s_pfile s) \<and>
      blocks_fields pstate nvals blks \<le> length (s_pfile s) \<and>
      same_info (s_pt s) (s_pt s') \<and>
      (\<forall>x. x < s_l s \<or> s_l s + blocks_len nvals blks \<le> x \<longrightarrow>
            pt_xcoord (s_pt s') x = pt_xcoord (s_pt s) x))"





text \<open>
  The range of \<^verbatim>\<open>int\<close>, and the condition under which no operation on \<^verbatim>\<open>int\<close> of the
  info block wraps around for the sample counts \<open>nvals\<close> of \<open>n\<close> functions: the mathematical
  values of \<^verbatim>\<open>first[i]\<close>, of \<^verbatim>\<open>first[i] + nvals[i]\<close> and of \<^verbatim>\<open>last[i]\<close> are in the
  range. \<open>table_fits\<close> is the same for sample counts that are not negative: the length of
  the table, the sum of \<open>nvals[m] + 2\<close>, is at most the largest \<^verbatim>\<open>int\<close>.
\<close>

definition in_int :: "int \<Rightarrow> bool" where
  "in_int x = (- (2 ^ 31) \<le> x \<and> x < 2 ^ 31)"

definition no_overflow :: "(nat \<Rightarrow> int) \<Rightarrow> nat \<Rightarrow> bool" where
  "no_overflow nvals n =
     (\<forall>i<n. in_int (2 + (\<Sum>m<i. nvals m + 2)) \<and>
            in_int (2 + (\<Sum>m<i. nvals m + 2) + nvals i) \<and>
            in_int (2 + (\<Sum>m<i. nvals m + 2) + nvals i - 1))"

definition table_fits :: "(nat \<Rightarrow> int) \<Rightarrow> nat \<Rightarrow> bool" where
  "table_fits nvals n = ((\<forall>m<n. 0 \<le> nvals m) \<and> (\<Sum>m<n. nvals m + 2) < 2 ^ 31)"

section \<open>castep2force\<close>

text \<open>
  The Python script that converts CASTEP \<^verbatim>\<open>.md\<close> files. A Python \<^verbatim>\<open>float\<close> is
  idealised as \<open>real\<close> (no rounding, no infinity, no NaN, no negative zero); an exception
  that is raised is the value \<open>Inl\<close>. The builtins \<^verbatim>\<open>float(s)\<close> and \<^verbatim>\<open>int(s)\<close>, which
  parse a string or raise \<^verbatim>\<open>ValueError\<close>, are parameters of the model.
\<close>

datatype py_error =
    SystemExit string   \<comment> \<open>\<^verbatim>\<open>sys.exit(1)\<close> in \<^verbatim>\<open>fatal\<close>, with the text written to stderr\<close>
  | IndexError
  | KeyError
  | ValueError
  | ZeroDivisionError
  | AttributeError



subsection \<open>Formatting of numbers\<close>

text \<open>\<^verbatim>\<open>str(n)\<close> for an integer: its decimal digits.\<close>

definition digit_char :: "nat \<Rightarrow> char" where
  "digit_char d = ''0123456789'' ! d"

function dec :: "nat \<Rightarrow> string" where
  "dec n = (if n < 10 then [digit_char n] else dec (n div 10) @ [digit_char (n mod 10)])"
  by pat_completeness auto
termination
  by (relation "measure (\<lambda>n. n)") auto

declare dec.simps [simp del]

definition str_int :: "int \<Rightarrow> string" where
  "str_int k = (if k < 0 then CHR ''-'' # dec (nat (- k)) else dec (nat k))"

text \<open>
  The format specification \<^verbatim>\<open>{:W.PE}\<close> applied to a number \<open>x\<close>: the sign, the first
  digit, the point and \<open>P\<close> more digits of \<open>x\<close> rounded (half to even) to \<open>P + 1\<close>
  significant digits, \<^verbatim>\<open>E\<close>, the sign of the decimal exponent and at least two digits of
  it; the result is padded with spaces on the left to the width \<open>W\<close>.
  \<open>dec_exp x\<close> is the decimal exponent of \<open>x > 0\<close>, found by scaling \<open>x\<close> into \<open>[1, 10)\<close>.
\<close>

function scale_down :: "real \<Rightarrow> nat" where
  "scale_down x = (if 10 \<le> x then Suc (scale_down (x / 10)) else 0)"
  by pat_completeness auto
termination
proof (relation "measure (\<lambda>x. nat \<lfloor>x\<rfloor>)")
  fix x :: real assume x: "10 \<le> x"
  have "real_of_int \<lfloor>x / 10\<rfloor> \<le> x / 10" by (rule of_int_floor_le)
  also have "x / 10 \<le> x - 9" using x by simp
  finally have "real_of_int \<lfloor>x / 10\<rfloor> < real_of_int \<lfloor>x\<rfloor>" by linarith
  then have "\<lfloor>x / 10\<rfloor> < \<lfloor>x\<rfloor>" by simp
  moreover have "0 < \<lfloor>x\<rfloor>" using x by simp
  ultimately show "(x / 10, x) \<in> measure (\<lambda>x. nat \<lfloor>x\<rfloor>)" by simp
qed simp

declare scale_down.simps [simp del]

function scale_up :: "real \<Rightarrow> nat" where
  "scale_up x = (if 0 < x \<and> x < 1 then Suc (scale_up (x * 10)) else 0)"
  by pat_completeness auto
termination
proof (relation "measure (\<lambda>x. nat \<lfloor>1 / x\<rfloor>)")
  fix x :: real assume x: "0 < x \<and> x < 1"
  define y where "y = 1 / x"
  have y: "1 < y" using x by (simp add: y_def)
  have e: "1 / (x * 10) = y / 10" by (simp add: y_def)
  have "\<lfloor>y / 10\<rfloor> < \<lfloor>y\<rfloor>"
  proof (cases "y < 10")
    case True
    have "y / 10 < 1" using True by linarith
    then have "\<lfloor>y / 10\<rfloor> < 1" by (simp only: floor_less_iff of_int_1)
    moreover have "1 \<le> \<lfloor>y\<rfloor>" using y by (simp only: le_floor_iff of_int_1 less_imp_le)
    ultimately show ?thesis by linarith
  next
    case False
    have "real_of_int \<lfloor>y / 10\<rfloor> \<le> y / 10" by (rule of_int_floor_le)
    also have "y / 10 \<le> y - 9" using False by linarith
    also have "y - 9 < real_of_int \<lfloor>y\<rfloor>" by linarith
    finally show ?thesis by (simp only: of_int_less_iff)
  qed
  moreover have "0 < \<lfloor>y\<rfloor>" using y by (simp only: zero_less_floor less_imp_le)
  ultimately have "nat \<lfloor>y / 10\<rfloor> < nat \<lfloor>y\<rfloor>" by linarith
  then show "(x * 10, x) \<in> measure (\<lambda>x. nat \<lfloor>1 / x\<rfloor>)"
    unfolding in_measure e y_def .
qed (rule wf_measure)

declare scale_up.simps [simp del]

definition dec_exp :: "real \<Rightarrow> int" where
  "dec_exp x = (if 1 \<le> x then int (scale_down x) else - int (scale_up x))"

definition pow10 :: "int \<Rightarrow> real" where
  "pow10 k = (if 0 \<le> k then 10 ^ nat k else 1 / 10 ^ nat (- k))"

definition round_half_even :: "real \<Rightarrow> int" where
  "round_half_even y =
     (let f = \<lfloor>y\<rfloor>; r = y - real_of_int f
      in if r < 1 / 2 then f else if 1 / 2 < r then f + 1 else if even f then f else f + 1)"

text \<open>The mantissa, as a natural number of \<open>p + 1\<close> digits, and the exponent of \<open>x > 0\<close>.\<close>

definition sci :: "nat \<Rightarrow> real \<Rightarrow> nat \<times> int" where
  "sci p x =
     (let e = dec_exp x;
          m = nat (round_half_even (x / pow10 e * 10 ^ p))
      in if m = 10 ^ (p + 1) then (10 ^ p, e + 1) else (m, e))"

definition exponent_digits :: "int \<Rightarrow> string" where
  "exponent_digits e =
     (if e < 0 then ''-'' else ''+'') @
     (let es = dec (nat \<bar>e\<bar>) in if length es < 2 then CHR ''0'' # es else es)"

definition format_E :: "nat \<Rightarrow> real \<Rightarrow> string" where
  "format_E p x =
     (let (ds, e) = (if x = 0 then (replicate (p + 1) CHR ''0'', 0)
                     else (dec (fst (sci p \<bar>x\<bar>)), snd (sci p \<bar>x\<bar>)))
      in (if x < 0 then ''-'' else []) @ [hd ds] @ (if p = 0 then [] else ''.'' @ tl ds) @
         ''E'' @ exponent_digits e)"

definition rjust :: "nat \<Rightarrow> string \<Rightarrow> string" where
  "rjust w s = replicate (w - length s) CHR '' '' @ s"

text \<open>The specification \<^verbatim>\<open>{:23.16E}\<close>, the only one the script uses for a number.\<close>

definition fmt_23_16E :: "real \<Rightarrow> string" where
  "fmt_23_16E x = rjust 23 (format_E 16 x)"

subsection \<open>\<^verbatim>\<open>Atom\<close>, \<^verbatim>\<open>Box\<close>, \<^verbatim>\<open>Configuration\<close>\<close>

text \<open>
  An atom has its type from \<^verbatim>\<open>__init__\<close>; the attributes \<^verbatim>\<open>x, y, z\<close> exist once
  \<^verbatim>\<open>set_position\<close> was called and \<^verbatim>\<open>f_x, f_y, f_z\<close> once \<^verbatim>\<open>set_forces\<close> was.
\<close>

record Atom =
  a_type :: int
  a_position :: "(real \<times> real \<times> real) option"
  a_forces :: "(real \<times> real \<times> real) option"




definition Atom_to_string :: "Atom \<Rightarrow> py_error + string" where
  "Atom_to_string a =
     (case a_position a of
        None \<Rightarrow> Inl AttributeError
      | Some (x, y, z) \<Rightarrow>
          (case a_forces a of
             None \<Rightarrow> Inl AttributeError
           | Some (f_x, f_y, f_z) \<Rightarrow>
               Inr (str_int (a_type a) @ '' '' @ fmt_23_16E x @ '' '' @ fmt_23_16E y @ '' '' @
                    fmt_23_16E z @ '' '' @ fmt_23_16E f_x @ '' '' @ fmt_23_16E f_y @ '' '' @
                    fmt_23_16E f_z)))"

record Box =
  b_x :: real
  b_y :: real
  b_z :: real

definition Box_to_string :: "Box \<Rightarrow> string" where
  "Box_to_string bx = fmt_23_16E (b_x bx) @ '' '' @ fmt_23_16E (b_y bx) @ '' '' @ fmt_23_16E (b_z bx)"

text \<open>
  An \<^verbatim>\<open>OrderedDict\<close> is the list of its items in the order of insertion. (The fields
  have the prefix \<open>c_\<close>.)
\<close>

record Configuration =
  c_types_of_element :: "(string \<times> int) list"
  c_boxes :: "Box list"
  c_energy :: "real option"
  c_stress :: "real list list"
  c_body :: "(string \<times> Atom list) list"


text \<open>\<^verbatim>\<open>xs[i]\<close> for a list and an index that is not negative.\<close>

definition item :: "'a list \<Rightarrow> nat \<Rightarrow> py_error + 'a" where
  "item xs i = (if i < length xs then Inr (xs ! i) else Inl IndexError)"

definition and_py :: "py_error + 'a \<Rightarrow> ('a \<Rightarrow> py_error + 'b) \<Rightarrow> py_error + 'b" where
  "and_py r f = (case r of Inl e \<Rightarrow> Inl e | Inr x \<Rightarrow> f x)"

fun all_py :: "(py_error + 'a) list \<Rightarrow> py_error + 'a list" where
  "all_py [] = Inr []"
| "all_py (r # rs) = and_py r (\<lambda>x. and_py (all_py rs) (\<lambda>xs. Inr (x # xs)))"

definition join :: "string \<Rightarrow> string list \<Rightarrow> string" where
  "join sep xs = concat (case xs of [] \<Rightarrow> [] | x # rest \<Rightarrow> x # map (\<lambda>y. sep @ y) rest)"

text \<open>
  \<^verbatim>\<open>Configuration.to_string\<close>: the list \<^verbatim>\<open>s\<close> of the lines, and the lines joined.
  \<^verbatim>\<open>self.energy if self.energy else 0\<close> is 0 when the energy is \<^verbatim>\<open>None\<close> or zero.
\<close>

definition stress_item :: "Configuration \<Rightarrow> nat \<Rightarrow> nat \<Rightarrow> py_error + real" where
  "stress_item c i j = and_py (item (c_stress c) i) (\<lambda>row. item row j)"

definition Configuration_lines :: "Configuration \<Rightarrow> py_error + string list" where
  "Configuration_lines c =
     (let number_of_atoms = sum_list (map (\<lambda>(_, t). int (length t)) (c_body c));
          s = [''#N '' @ str_int number_of_atoms @ '' 1'',
               ''#C '' @ join '' '' (map fst (c_types_of_element c))]
      in and_py (item (c_boxes c) 0) (\<lambda>b0.
         and_py (item (c_boxes c) 1) (\<lambda>b1.
         and_py (item (c_boxes c) 2) (\<lambda>b2.
         let s = s @ [''#X '' @ Box_to_string b0, ''#Y '' @ Box_to_string b1,
                      ''#Z '' @ Box_to_string b2,
                      ''#E '' @ fmt_23_16E (case c_energy c of None \<Rightarrow> 0
                                            | Some e \<Rightarrow> if e \<noteq> 0 then e else 0)]
         in and_py
              (if length (c_stress c) = 3 then
                 and_py (stress_item c 0 0) (\<lambda>xx.
                 and_py (stress_item c 1 1) (\<lambda>yy.
                 and_py (stress_item c 2 2) (\<lambda>zz.
                 and_py (stress_item c 0 1) (\<lambda>xy.
                 and_py (stress_item c 1 2) (\<lambda>yz.
                 and_py (stress_item c 0 2) (\<lambda>xz.
                 Inr (s @ [''#S '' @ fmt_23_16E xx @ '' '' @ fmt_23_16E yy @ '' '' @
                           fmt_23_16E zz @ '' '' @ fmt_23_16E xy @ '' '' @ fmt_23_16E yz @
                           '' '' @ fmt_23_16E xz])))))))
               else Inr s) (\<lambda>s.
            let s = s @ [''#F'']
            in and_py (all_py (map Atom_to_string (concat (map snd (c_body c))))) (\<lambda>atoms.
               Inr (s @ atoms @ [[]])))))))"

definition Configuration_to_string :: "Configuration \<Rightarrow> py_error + string" where
  "Configuration_to_string c = and_py (Configuration_lines c) (\<lambda>s. Inr (join NL s))"

subsection \<open>\<^verbatim>\<open>read_configuration\<close>\<close>

text \<open>
  \<^verbatim>\<open>str.strip()\<close> and \<^verbatim>\<open>str.split()\<close> with no argument, for the white space of ASCII.
\<close>

definition is_space :: "char \<Rightarrow> bool" where
  "is_space c = (c \<in> {CHR '' '', CHR 0x09, CHR 0x0A, CHR 0x0B, CHR 0x0C, CHR 0x0D,
                       CHR 0x1C, CHR 0x1D, CHR 0x1E, CHR 0x1F})"


fun split_from :: "string \<Rightarrow> string \<Rightarrow> string list" where
  "split_from [] w = (if w = [] then [] else [rev w])"
| "split_from (c # cs) w =
     (if is_space c then (if w = [] then split_from cs [] else rev w # split_from cs [])
      else split_from cs (c # w))"

definition split :: "string \<Rightarrow> string list" where
  "split s = split_from s []"





















text \<open>The digits of the mantissa of a formatted number: the digits before the \<^verbatim>\<open>E\<close>.\<close>

definition is_digit :: "char \<Rightarrow> bool" where
  "is_digit c = ((48::nat) \<le> of_char c \<and> of_char c \<le> (57::nat))"

definition mantissa_digits :: "string \<Rightarrow> string" where
  "mantissa_digits s = filter is_digit (takeWhile (\<lambda>c. c \<noteq> CHR ''E'') s)"

subsection \<open>Concrete inputs\<close>

text \<open>
  A build with no model symbol defined (pair potentials only), two pair functions of 3 and 2
  sample points, with a gradient line for each; the gradient flags are 3 and 2.
\<close>

definition pair_build :: build where
  "pair_build = \<lparr>APOT = False, KIM = False, EAM = False, ADP = False, MEAM = False,
     TBEAM = False, RESCALE = False, MEAMf = False\<rparr>"

definition pair_globals :: globals where
  "pair_globals = \<lparr>paircol = 2, ntypes = 1, invar_pot = (\<lambda>_. 0),
     gradient = (\<lambda>i. if i = 0 then 3 else 2), bare_invar_pot = (\<lambda>_. 0)\<rparr>"

definition zero_memory :: fresh_memory where
  "zero_memory = \<lparr>new_nvals = (\<lambda>_. 0), new_table = (\<lambda>_. 0),
     new_xcoord = (\<lambda>_. Finite 0),
     new_d2tab = (\<lambda>_. 0), new_idx = (\<lambda>_. 0)\<rparr>"

definition zero_table :: pot_table where
  "zero_table = \<lparr>pt_len = 0, pt_idxlen = 0, pt_ncols = 0, pt_begin = (\<lambda>_. 0), pt_end = (\<lambda>_. 0),
     pt_step = (\<lambda>_. Finite 0), pt_invstep = (\<lambda>_. Finite 0), pt_first = (\<lambda>_. 0),
     pt_last = (\<lambda>_. 0), pt_xcoord = (\<lambda>_. Finite 0), pt_table = (\<lambda>_. 0), pt_d2tab = (\<lambda>_. 0), pt_idx = (\<lambda>_. 0)\<rparr>"

definition pair_state :: potential_state where
  "pair_state = \<lparr>filename = ''pair.pot'', num_pots = 2, have_gradient = 1\<rparr>"

definition pair_file :: "token list" where
  "pair_file =
     [Int_tok 0, Int_tok 2, Int_tok 3,
      Dbl_tok 1, Dbl_tok 2, Int_tok 2,
      Dbl_tok (1 / 2), Int_tok 0,
      Int_tok 1, Int_tok 2, Int_tok 3,
      Int_tok 0, Int_tok 0,
      Int_tok 4, Int_tok 5]"


definition model_state :: potential_state where
  "model_state = \<lparr>filename = ''model.pot'', num_pots = 5, have_gradient = 0\<rparr>"




text \<open>
  The same five functions, but the header line of the first has the sample count \<open>-3\<close>: the
  loops read no value for it, and the values of the other four functions follow. A file
  with one function of one sample point.
\<close>

definition negative_count_file :: "token list" where
  "negative_count_file =
     [Int_tok 0, Int_tok 2, Int_tok (- 3),
      Int_tok 0, Int_tok 2, Int_tok 2,
      Int_tok 0, Int_tok 2, Int_tok 2,
      Int_tok 0, Int_tok 2, Int_tok 2,
      Int_tok 2, Int_tok 3, Int_tok 2,
      Int_tok 4, Int_tok 5,
      Int_tok 6, Int_tok 7,
      Int_tok 8, Int_tok 9,
      Int_tok 10, Int_tok 11]"


text \<open>One pair function of 3 sample points on a header line with \<open>begin = 2\<close> and \<open>end = 0\<close>.\<close>

definition single_globals :: globals where
  "single_globals = \<lparr>paircol = 1, ntypes = 1, invar_pot = (\<lambda>_. 0), gradient = (\<lambda>_. 0),
     bare_invar_pot = (\<lambda>_. 0)\<rparr>"

definition single_state :: potential_state where
  "single_state = \<lparr>filename = ''single.pot'', num_pots = 1, have_gradient = 0\<rparr>"

definition descending_file :: "token list" where
  "descending_file = [Int_tok 2, Int_tok 0, Int_tok 3, Int_tok 7, Int_tok 8, Int_tok 9]"

text \<open>A state in which function 2 has the domain \<open>[2, 3]\<close>.\<close>

definition off_domain_state :: scan_state where
  "off_domain_state =
     \<lparr>s_pfile = [], s_val = 0, s_k = 0, s_l = 0,
      s_pt = zero_table\<lparr>pt_begin := (\<lambda>_. 2), pt_end := (\<lambda>_. 3)\<rparr>\<rparr>"

text \<open>
  A global state before the call: the six arrays of the info block of \<^verbatim>\<open>g_pot.opt_pot\<close>
  at the addresses 0 to 5, \<^verbatim>\<open>g_pot.calc_pot\<close> with other pointers, a memory of zeros.
\<close>

definition start_state :: program_state where
  "start_state =
     \<lparr>g_pot = \<lparr>opt_pot = \<lparr>t_len = 0, t_idxlen = 0, t_ncols = 0, t_begin = 0, t_end = 1,
                  t_step = 2, t_invstep = 3, t_first = 4, t_last = 5, t_xcoord = 6, t_table = 6,
                  t_d2tab = 6, t_idx = 6\<rparr>,
               calc_pot = \<lparr>t_len = 7, t_idxlen = 7, t_ncols = 7, t_begin = 7, t_end = 7,
                  t_step = 7, t_invstep = 7, t_first = 7, t_last = 7, t_xcoord = 7, t_table = 7,
                  t_d2tab = 7, t_idx = 7\<rparr>\<rparr>,
      heap = \<lparr>doubles = (\<lambda>_ _. Finite 0), ints = (\<lambda>_ _. 0), brk = 8\<rparr>\<rparr>"




definition unit_box :: Box where
  "unit_box = \<lparr>b_x = 1, b_y = 0, b_z = - (1 / 8)\<rparr>"

section \<open>Properties of the info block\<close>

lemma read_info_block_step:
  "i < num_pots ps \<Longrightarrow> fscanf_lf_lf_d pf = Some ((b, e, n), pf1) \<Longrightarrow>
   read_info_block ps i pf s = read_info_block ps (Suc i) pf1 (info_line i b e n s)"
  by (subst read_info_block.simps) simp

lemma read_info_block_done:
  "\<not> i < num_pots ps \<Longrightarrow> read_info_block ps i pf s = Inr (pf, s)"
  by (subst read_info_block.simps) simp

lemma read_info_block_fail:
  "i < num_pots ps \<Longrightarrow> fscanf_lf_lf_d pf = None \<Longrightarrow>
   read_info_block ps i pf s = Inl [Msg 1 info_block_msg [AStr (filename ps), AInt (int i)]]"
  by (subst read_info_block.simps) simp

lemma fscanf_lf_lf_d_Some:
  "fscanf_lf_lf_d pf = Some ((b, e, n), pf1) \<Longrightarrow>
   \<exists>x y z. pf = x # y # z # pf1 \<and> conv_lf x = Some b \<and> conv_lf y = Some e \<and> conv_d z = Some n"
  by (induction pf rule: fscanf_lf_lf_d.induct) (auto split: option.splits)

lemma drop3:
  "drop (3 * Suc k) (x # y # z # r) = drop (3 * k) r"
proof -
  have "3 * Suc k = Suc (Suc (Suc (3 * k)))" by simp
  then show ?thesis by (simp del: mult_Suc_right)
qed

lemma info_line_frame:
  "info_line i b e n (pt, nv) = (pt', nv') \<Longrightarrow>
   pt_xcoord pt' = pt_xcoord pt \<and> pt_table pt' = pt_table pt \<and> pt_d2tab pt' = pt_d2tab pt \<and>
   pt_idx pt' = pt_idx pt \<and> pt_idxlen pt' = pt_idxlen pt \<and> pt_ncols pt' = pt_ncols pt"
  by (auto simp: info_line_def Let_def split: if_splits)

lemma info_line_other:
  "info_line i b e n (pt, nv) = (pt', nv') \<Longrightarrow> m \<noteq> i \<Longrightarrow>
   pt_begin pt' m = pt_begin pt m \<and> pt_end pt' m = pt_end pt m \<and> pt_step pt' m = pt_step pt m \<and>
   pt_invstep pt' m = pt_invstep pt m \<and> pt_first pt' m = pt_first pt m \<and>
   pt_last pt' m = pt_last pt m \<and> nv' m = nv m"
  by (auto simp: info_line_def Let_def split: if_splits)

lemma info_line_at:
  "info_line i b e n (pt, nv) = (pt', nv') \<Longrightarrow>
   pt_begin pt' i = b \<and> pt_end pt' i = e \<and> nv' i = n \<and>
   pt_step pt' i = double_div (e - b) (real_of_int (int32 (n - 1))) \<and>
   pt_invstep pt' i = double_inv (pt_step pt' i) \<and>
   pt_first pt' i = (if i = 0 then 2 else int32 (pt_last pt (i - 1) + 3)) \<and>
   pt_last pt' i = int32 (int32 (pt_first pt' i + n) - 1) \<and>
   pt_len pt' = int32 (pt_first pt' i + n)"
  by (auto simp: info_line_def Let_def split: if_splits)

lemma info_frame:
  "read_info_block ps i pf (pt, nv) = Inr (pf', pt', nv') \<Longrightarrow>
   pt_xcoord pt' = pt_xcoord pt \<and> pt_table pt' = pt_table pt \<and> pt_d2tab pt' = pt_d2tab pt \<and>
   pt_idx pt' = pt_idx pt \<and> pt_idxlen pt' = pt_idxlen pt \<and> pt_ncols pt' = pt_ncols pt"
proof (induction "num_pots ps - i" arbitrary: i pf pt nv)
  case 0
  then show ?case by (simp add: read_info_block_done)
next
  case (Suc d)
  then have lt: "i < num_pots ps" by simp
  with Suc.prems obtain b e n pf1 where sc: "fscanf_lf_lf_d pf = Some ((b, e, n), pf1)"
    by (cases "fscanf_lf_lf_d pf") (auto simp: read_info_block_fail)
  obtain pt1 nv1 where il: "info_line i b e n (pt, nv) = (pt1, nv1)" by fastforce
  have rec: "read_info_block ps (Suc i) pf1 (pt1, nv1) = Inr (pf', pt', nv')"
    using Suc.prems read_info_block_step[OF lt sc] il by simp
  have "d = num_pots ps - Suc i" using Suc.hyps(2) by simp
  from Suc.hyps(1)[OF this rec] info_line_frame[OF il] show ?case by simp
qed

lemma info_other:
  "read_info_block ps i pf (pt, nv) = Inr (pf', pt', nv') \<Longrightarrow> m < i \<or> num_pots ps \<le> m \<Longrightarrow>
   pt_begin pt' m = pt_begin pt m \<and> pt_end pt' m = pt_end pt m \<and> pt_step pt' m = pt_step pt m \<and>
   pt_invstep pt' m = pt_invstep pt m \<and> pt_first pt' m = pt_first pt m \<and>
   pt_last pt' m = pt_last pt m \<and> nv' m = nv m"
proof (induction "num_pots ps - i" arbitrary: i pf pt nv)
  case 0
  then show ?case by (simp add: read_info_block_done)
next
  case (Suc d)
  then have lt: "i < num_pots ps" by simp
  with Suc.prems obtain b e n pf1 where sc: "fscanf_lf_lf_d pf = Some ((b, e, n), pf1)"
    by (cases "fscanf_lf_lf_d pf") (auto simp: read_info_block_fail)
  obtain pt1 nv1 where il: "info_line i b e n (pt, nv) = (pt1, nv1)" by fastforce
  have rec: "read_info_block ps (Suc i) pf1 (pt1, nv1) = Inr (pf', pt', nv')"
    using Suc.prems read_info_block_step[OF lt sc] il by simp
  have d: "d = num_pots ps - Suc i" using Suc.hyps(2) by simp
  have m1: "m < Suc i \<or> num_pots ps \<le> m" and m2: "m \<noteq> i" using Suc.prems(2) lt by auto
  from Suc.hyps(1)[OF d rec m1] info_line_other[OF il m2] show ?case by simp
qed

lemma info_at:
  "read_info_block ps i pf (pt, nv) = Inr (pf', pt', nv') \<Longrightarrow> i \<le> m \<Longrightarrow> m < num_pots ps \<Longrightarrow>
   fscanf_lf_lf_d (drop (3 * (m - i)) pf) = Some ((pt_begin pt' m, pt_end pt' m, nv' m), drop (3 * (Suc m - i)) pf) \<and>
   pt_step pt' m = double_div (pt_end pt' m - pt_begin pt' m) (real_of_int (int32 (nv' m - 1))) \<and>
   pt_invstep pt' m = double_inv (pt_step pt' m) \<and>
   pt_first pt' m =
     (if m = 0 then 2 else int32 ((if m = i then pt_last pt (m - 1) else pt_last pt' (m - 1)) + 3)) \<and>
   pt_last pt' m = int32 (int32 (pt_first pt' m + nv' m) - 1)"
proof (induction "num_pots ps - i" arbitrary: i pf pt nv)
  case 0
  then show ?case by simp
next
  case (Suc d)
  then have lt: "i < num_pots ps" by simp
  with Suc.prems obtain b e n pf1 where sc: "fscanf_lf_lf_d pf = Some ((b, e, n), pf1)"
    by (cases "fscanf_lf_lf_d pf") (auto simp: read_info_block_fail)
  obtain pt1 nv1 where il: "info_line i b e n (pt, nv) = (pt1, nv1)" by fastforce
  have rec: "read_info_block ps (Suc i) pf1 (pt1, nv1) = Inr (pf', pt', nv')"
    using Suc.prems read_info_block_step[OF lt sc] il by simp
  have d: "d = num_pots ps - Suc i" using Suc.hyps(2) by simp
  from fscanf_lf_lf_d_Some[OF sc] obtain x y z where pf: "pf = x # y # z # pf1" by blast
  show ?case
  proof (cases "m = i")
    case True
    have "m < Suc i \<or> num_pots ps \<le> m" using True by simp
    from info_other[OF rec this] info_line_at[OF il] sc True pf
    show ?thesis by simp
  next
    case False
    then have le: "Suc i \<le> m" using Suc.prems(2) by simp
    have "m - i = Suc (m - Suc i)" using le by simp
    then have dr: "drop (3 * (m - i)) pf = drop (3 * (m - Suc i)) pf1"
      using pf drop3 by metis
    have "Suc m - i = Suc (Suc m - Suc i)" using le by simp
    then have dr2: "drop (3 * (Suc m - i)) pf = drop (3 * (Suc m - Suc i)) pf1"
      using pf drop3 by metis
    have i1: "m - 1 < Suc i \<or> num_pots ps \<le> m - 1" if "m = Suc i" using that by simp
    from Suc.hyps(1)[OF d rec le Suc.prems(3)] dr dr2 False le
      info_line_at[OF il] info_other[OF rec i1]
    show ?thesis by (auto split: if_splits)
  qed
qed

lemma info_len:
  "read_info_block ps i pf (pt, nv) = Inr (pf', pt', nv') \<Longrightarrow>
   pt_len pt' = (if i < num_pots ps then int32 (pt_first pt' (num_pots ps - 1) + nv' (num_pots ps - 1))
                 else pt_len pt) \<and>
   pf' = drop (3 * (num_pots ps - i)) pf \<and> 3 * (num_pots ps - i) \<le> length pf"
proof (induction "num_pots ps - i" arbitrary: i pf pt nv)
  case 0
  then show ?case by (simp add: read_info_block_done)
next
  case (Suc d)
  then have lt: "i < num_pots ps" by simp
  with Suc.prems obtain b e n pf1 where sc: "fscanf_lf_lf_d pf = Some ((b, e, n), pf1)"
    by (cases "fscanf_lf_lf_d pf") (auto simp: read_info_block_fail)
  obtain pt1 nv1 where il: "info_line i b e n (pt, nv) = (pt1, nv1)" by fastforce
  have rec: "read_info_block ps (Suc i) pf1 (pt1, nv1) = Inr (pf', pt', nv')"
    using Suc.prems read_info_block_step[OF lt sc] il by simp
  have d: "d = num_pots ps - Suc i" using Suc.hyps(2) by simp
  from fscanf_lf_lf_d_Some[OF sc] obtain x y z where pf: "pf = x # y # z # pf1" by blast
  have i1: "i < Suc i \<or> num_pots ps \<le> i" by simp
  have ds: "num_pots ps - i = Suc (num_pots ps - Suc i)" using lt by simp
  then have dr: "drop (3 * (num_pots ps - i)) pf = drop (3 * (num_pots ps - Suc i)) pf1"
    using pf drop3 by metis
  show ?case
  proof (cases "Suc i < num_pots ps")
    case True
    from Suc.hyps(1)[OF d rec] True lt dr pf ds show ?thesis by simp
  next
    case False
    then have e: "num_pots ps - 1 = i" using lt by simp
    from Suc.hyps(1)[OF d rec] False lt dr pf info_line_at[OF il] info_other[OF rec i1] e ds
    show ?thesis by simp
  qed
qed

subsection \<open>The offsets when no operation on \<^verbatim>\<open>int\<close> wraps around\<close>

lemma int32_id: "in_int x \<Longrightarrow> int32 x = x"
  by (simp add: int32_def in_int_def)

lemma int32_small: "- 2147483648 \<le> x \<Longrightarrow> x < 2147483648 \<Longrightarrow> int32 x = x"
  by (simp add: int32_def)



lemma table_fits_no_overflow:
  assumes "table_fits nvals n"
  shows "no_overflow nvals n"
  unfolding no_overflow_def
proof (intro allI impI)
  fix i assume i: "i < n"
  from assms have nn: "\<forall>m<n. 0 \<le> nvals m" and tot: "(\<Sum>m<n. nvals m + 2) < 2 ^ 31"
    by (simp_all add: table_fits_def)
  have lo: "0 \<le> (\<Sum>m<i. nvals m + 2)" using nn i by (intro sum_nonneg) auto
  have "{..<Suc i} \<subseteq> {..<n}" using i by auto
  then have "(\<Sum>m<Suc i. nvals m + 2) \<le> (\<Sum>m<n. nvals m + 2)"
    using nn by (intro sum_mono2) auto
  then have hi: "(\<Sum>m<i. nvals m + 2) + nvals i + 2 < 2 ^ 31" using tot by simp
  have ni: "0 \<le> nvals i" using nn i by simp
  show "in_int (2 + (\<Sum>m<i. nvals m + 2)) \<and> in_int (2 + (\<Sum>m<i. nvals m + 2) + nvals i) \<and>
        in_int (2 + (\<Sum>m<i. nvals m + 2) + nvals i - 1)"
    using lo hi ni by (simp add: in_int_def)
qed

lemma info_first_sum:
  assumes r: "read_info_block ps 0 pf (pt, nv) = Inr (pf', pt', nv')"
    and no: "no_overflow nv' (num_pots ps)"
  shows "i < num_pots ps \<Longrightarrow>
         pt_first pt' i = 2 + (\<Sum>m<i. nv' m + 2) \<and> pt_last pt' i = pt_first pt' i + nv' i - 1"
proof (induction i)
  case 0
  from no 0 have "in_int (2 + nv' 0)" "in_int (2 + nv' 0 - 1)" by (auto simp: no_overflow_def)
  with info_at[OF r _ 0] show ?case by (simp add: int32_id)
next
  case (Suc i)
  then have i: "i < num_pots ps" by simp
  from Suc.IH[OF i] have f: "pt_first pt' i = 2 + (\<Sum>m<i. nv' m + 2)"
    and l: "pt_last pt' i = pt_first pt' i + nv' i - 1" by simp_all
  from no Suc.prems have a: "in_int (2 + (\<Sum>m<Suc i. nv' m + 2))"
    "in_int (2 + (\<Sum>m<Suc i. nv' m + 2) + nv' (Suc i))"
    "in_int (2 + (\<Sum>m<Suc i. nv' m + 2) + nv' (Suc i) - 1)" by (auto simp: no_overflow_def)
  have e: "pt_last pt' i + 3 = 2 + (\<Sum>m<Suc i. nv' m + 2)" using f l by simp
  from info_at[OF r _ Suc.prems] have "pt_first pt' (Suc i) = int32 (pt_last pt' i + 3)" by simp
  with e a(1) have f': "pt_first pt' (Suc i) = 2 + (\<Sum>m<Suc i. nv' m + 2)" by (simp add: int32_id)
  from info_at[OF r _ Suc.prems]
  have "pt_last pt' (Suc i) = int32 (int32 (pt_first pt' (Suc i) + nv' (Suc i)) - 1)" by simp
  with f' a(2,3) have "pt_last pt' (Suc i) = pt_first pt' (Suc i) + nv' (Suc i) - 1"
    by (simp add: int32_id)
  with f' show ?case by simp
qed

lemma info_third_field:
  assumes r: "read_info_block ps 0 pf (pt, nv) = Inr (pf', pt', nv')" and i: "i < num_pots ps"
  shows "conv_lf (pf ! (3 * i)) = Some (pt_begin pt' i) \<and> conv_lf (pf ! (3 * i + 1)) = Some (pt_end pt' i)
     \<and> conv_d (pf ! (3 * i + 2)) = Some (nv' i) \<and> 3 * i + 2 < length pf"
proof -
  from info_at[OF r _ i] have sc: "fscanf_lf_lf_d (drop (3 * i) pf) =
     Some ((pt_begin pt' i, pt_end pt' i, nv' i), drop (3 * (Suc i)) pf)" by simp
  from fscanf_lf_lf_d_Some[OF sc] obtain x y z where
    d: "drop (3 * i) pf = x # y # z # drop (3 * (Suc i)) pf"
    and c: "conv_lf x = Some (pt_begin pt' i)" "conv_lf y = Some (pt_end pt' i)" "conv_d z = Some (nv' i)"
    by blast
  have len: "3 * i + 2 < length pf"
  proof (rule ccontr)
    assume "\<not> 3 * i + 2 < length pf"
    then have "length (drop (3 * i) pf) \<le> 2" by simp
    with d show False by simp
  qed
  have "pf ! (3 * i + 0) = drop (3 * i) pf ! 0" "pf ! (3 * i + 1) = drop (3 * i) pf ! 1"
    "pf ! (3 * i + 2) = drop (3 * i) pf ! 2"
    using len by (simp_all del: One_nat_def)
  with d c len show ?thesis by simp
qed



lemma info_offsets:
  assumes r: "read_info_block ps 0 pf (pt, nv) = Inr (pf', pt', nvals)"
    and no: "no_overflow nvals (num_pots ps)"
    and i: "i < num_pots ps"
  shows "conv_d (pf ! (3 * i + 2)) = Some (nvals i)"
    "pt_first pt' i = (if i = 0 then 2 else pt_last pt' (i - 1) + 3)"
    "pt_last pt' i = pt_first pt' i + nvals i - 1"
    "pt_len pt' = (\<Sum>m<num_pots ps. nvals m + 2)"
proof -
  from info_third_field[OF r i] show "conv_d (pf ! (3 * i + 2)) = Some (nvals i)" by simp
  from info_first_sum[OF r no i] show la: "pt_last pt' i = pt_first pt' i + nvals i - 1" by simp
  show "pt_first pt' i = (if i = 0 then 2 else pt_last pt' (i - 1) + 3)"
  proof (cases i)
    case 0
    with info_first_sum[OF r no i] show ?thesis by simp
  next
    case (Suc k)
    then have k: "k < num_pots ps" using i by simp
    from info_first_sum[OF r no k] info_first_sum[OF r no i] Suc show ?thesis by simp
  qed
  obtain n where n: "num_pots ps = Suc n" using i by (cases "num_pots ps") auto
  then have n': "n < num_pots ps" by simp
  from no n' have "in_int (2 + (\<Sum>m<n. nvals m + 2) + nvals n)" by (auto simp: no_overflow_def)
  with info_first_sum[OF r no n'] info_len[OF r] n
  show "pt_len pt' = (\<Sum>m<num_pots ps. nvals m + 2)" by (simp add: int32_id)
qed

text \<open>
  Claim C1, as amended. When the info block is read for the functions \<open>0, ..., num_pots - 1\<close>
  and no operation on \<^verbatim>\<open>int\<close> wraps around (the mathematical values of \<open>first[m]\<close>,
  \<open>first[m] + nvals[m]\<close> and \<open>last[m]\<close> are in the range of \<^verbatim>\<open>int\<close> for every function
  \<open>m\<close>), then for every function \<open>i\<close>, with \<open>nvals i\<close> the sample count that \<^verbatim>\<open>%d\<close> stored
  from the third field of its header line: \<open>first[0] = 2\<close>, \<open>first[i] = last[i - 1] + 3\<close> for
  \<open>i > 0\<close>, \<open>last[i] = first[i] + nvals[i] - 1\<close>, hence \<open>first[i] < last[i]\<close> when the
  function has at least two sample points, and \<open>len\<close> is the sum of \<open>nvals[m] + 2\<close> over all
  functions. Sample counts that are not negative with a sum of \<open>nvals[m] + 2\<close> below
  \<open>2 ^ 31\<close> are a case of this.
\<close>

theorem C1_offsets:
  assumes "read_info_block pstate 0 pfile (pt, nv) = Inr (pfile', pt', nvals)"
    and "no_overflow nvals (num_pots pstate)"
    and "i < num_pots pstate"
  shows "conv_d (pfile ! (3 * i + 2)) = Some (nvals i) \<and>
         pt_first pt' i = (if i = 0 then 2 else pt_last pt' (i - 1) + 3) \<and>
         pt_last pt' i = pt_first pt' i + nvals i - 1 \<and>
         (2 \<le> nvals i \<longrightarrow> pt_first pt' i < pt_last pt' i) \<and>
         pt_len pt' = (\<Sum>m<num_pots pstate. nvals m + 2) \<and>
         (\<forall>nv' n. table_fits nv' n \<longrightarrow> no_overflow nv' n)"
  using info_offsets[OF assms] table_fits_no_overflow by simp

lemma pair_info_block:
  "\<exists>pfile' pt' nvals. read_info_block pair_state 0 pair_file (zero_table, new_nvals zero_memory) =
      Inr (pfile', pt', nvals) \<and> nvals 0 = 3 \<and> nvals 1 = 2"
  by (simp add: pair_state_def pair_file_def read_info_block.simps info_line_def int32_small)

lemma table_fits_pair: "nvals 0 = 3 \<Longrightarrow> nvals (Suc 0) = 2 \<Longrightarrow> table_fits nvals 2"
  by (auto simp: table_fits_def less_Suc_eq numeral_2_eq_2)

theorem C1_offsets_witness:
  "\<exists>pfile' pt' nvals. read_info_block pair_state 0 pair_file (zero_table, new_nvals zero_memory) = Inr (pfile', pt', nvals) \<and>
     nvals 0 = 3 \<and> nvals 1 = 2 \<and> (1::nat) < num_pots pair_state \<and>
     no_overflow nvals (num_pots pair_state) \<and>
     pt_first pt' 0 = 2 \<and> pt_last pt' 0 = 4 \<and> pt_first pt' 1 = 7 \<and> pt_last pt' 1 = 8 \<and>
     pt_first pt' 1 < pt_last pt' 1 \<and> pt_len pt' = 9"
proof -
  obtain pfile' pt' nvals where r: "read_info_block pair_state 0 pair_file (zero_table, new_nvals zero_memory) = Inr (pfile', pt', nvals)"
    and nv: "nvals 0 = 3" "nvals 1 = 2"
    using pair_info_block by blast
  have n: "num_pots pair_state = 2" by (simp add: pair_state_def)
  have i0: "0 < num_pots pair_state" and i1: "1 < num_pots pair_state" by (simp_all add: n)
  have no: "no_overflow nvals (num_pots pair_state)"
    unfolding n by (rule table_fits_no_overflow) (use nv in \<open>simp add: table_fits_pair\<close>)
  note a0 = C1_offsets[OF r no i0] and a1 = C1_offsets[OF r no i1]
  have "(\<Sum>m<num_pots pair_state. nvals m + 2) = 9" using nv by (simp add: n eval_nat_numeral)
  with r a0 a1 nv i1 no show ?thesis by auto
qed

text \<open>
  Claim C1 as stated fails: for one function whose header line has the sample count
  \<open>2 ^ 31 - 1\<close>, the largest \<^verbatim>\<open>int\<close>, the info block is read, \<open>first[0] = 2\<close>, and
  \<open>last[0]\<close> and \<open>len\<close> have wrapped around: \<open>last[0]\<close> is the smallest \<^verbatim>\<open>int\<close>, below
  \<open>first[0]\<close>, and \<open>len\<close> is negative, not the sum \<open>2 ^ 31 + 1\<close>.
\<close>

theorem C1_counterexample:
  "\<exists>pfile' pt' nvals. read_info_block single_state 0 [Int_tok 0, Int_tok 1, Int_tok (2 ^ 31 - 1)]
        (zero_table, new_nvals zero_memory) = Inr (pfile', pt', nvals) \<and>
     nvals 0 = 2 ^ 31 - 1 \<and> 2 \<le> nvals 0 \<and> pt_first pt' 0 = 2 \<and> pt_last pt' 0 = - (2 ^ 31) \<and>
     \<not> pt_first pt' 0 < pt_last pt' 0 \<and> pt_last pt' 0 \<noteq> pt_first pt' 0 + nvals 0 - 1 \<and>
     pt_len pt' = - (2 ^ 31) + 1 \<and> pt_len pt' \<noteq> (\<Sum>m<num_pots single_state. nvals m + 2)"
  by (simp add: single_state_def read_info_block.simps info_line_def int32_def)

section \<open>Properties of the input loops\<close>

subsection \<open>Loop rules\<close>

lemma read_values_step:
  "int j < nvals i \<Longrightarrow> fscanf_lf (s_pfile s) = Some (x, pf') \<Longrightarrow>
   read_values b ps g nvals kd i j s =
   read_values b ps g nvals kd i (Suc j) (value_line b g nvals kd i j x pf' s)"
  by (subst read_values.simps) simp

lemma read_values_done:
  "\<not> int j < nvals i \<Longrightarrow> read_values b ps g nvals kd i j s = Inr s"
  by (subst read_values.simps) simp

lemma read_values_fail:
  "int j < nvals i \<Longrightarrow> fscanf_lf (s_pfile s) = None \<Longrightarrow>
   read_values b ps g nvals kd i j s =
   Inl [Msg 1 (values_msg kd) [AStr (filename ps), AInt (int i), AInt (int j)]]"
  by (subst read_values.simps) simp

lemma read_values_invariant:
  assumes "read_values b ps g nvals kd i j s = Inr s'"
    and "P j s"
    and step: "\<And>j s x pf'. int j < nvals i \<Longrightarrow> P j s \<Longrightarrow> fscanf_lf (s_pfile s) = Some (x, pf') \<Longrightarrow>
            P (Suc j) (value_line b g nvals kd i j x pf' s)"
  shows "P (max j (nat (nvals i))) s'"
  using assms(1,2)
proof (induction "nat (nvals i) - j" arbitrary: j s)
  case 0
  then have "\<not> int j < nvals i" and "max j (nat (nvals i)) = j" by linarith+
  with 0 show ?case by (simp add: read_values_done)
next
  case (Suc d)
  then have lt: "int j < nvals i" by linarith
  with Suc.prems obtain x pf' where sc: "fscanf_lf (s_pfile s) = Some (x, pf')"
    by (cases "fscanf_lf (s_pfile s)") (auto simp: read_values_fail)
  have rec: "read_values b ps g nvals kd i (Suc j) (value_line b g nvals kd i j x pf' s) = Inr s'"
    using Suc.prems(1) read_values_step[where nvals=nvals and i=i, OF lt sc] by simp
  have d: "d = nat (nvals i) - Suc j" using Suc.hyps(2) by simp
  have "max (Suc j) (nat (nvals i)) = max j (nat (nvals i))" using lt by linarith
  with Suc.hyps(1)[OF d rec step[OF lt Suc.prems(2) sc]] show ?case by simp
qed

lemma read_values_Inl:
  "read_values b ps g nvals kd i j s = Inl e \<Longrightarrow>
   \<exists>j'. j \<le> j' \<and> int j' < nvals i \<and>
        e = [Msg 1 (values_msg kd) [AStr (filename ps), AInt (int i), AInt (int j')]]"
proof (induction "nat (nvals i) - j" arbitrary: j s)
  case 0
  then have "\<not> int j < nvals i" by linarith
  with 0 show ?case by (simp add: read_values_done)
next
  case (Suc d)
  then have lt: "int j < nvals i" by linarith
  show ?case
  proof (cases "fscanf_lf (s_pfile s)")
    case None
    with Suc.prems lt show ?thesis by (auto simp: read_values_fail)
  next
    case (Some a)
    then obtain x pf' where sc: "fscanf_lf (s_pfile s) = Some (x, pf')" by (cases a) auto
    have rec: "read_values b ps g nvals kd i (Suc j) (value_line b g nvals kd i j x pf' s) = Inl e"
      using Suc.prems(1) read_values_step[where nvals=nvals and i=i, OF lt sc] by simp
    have d: "d = nat (nvals i) - Suc j" using Suc.hyps(2) by simp
    from Suc.hyps(1)[OF d rec] show ?thesis by (metis Suc_leD)
  qed
qed

subsection \<open>One statement that enters a slot or skips it\<close>

lemma stored_idx_step:
  "stored (idx_step c s) = stored s @ (if c then [s_l s] else [])"
  by (simp add: stored_def idx_step_def)

lemma idx_step_fields:
  "s_l (idx_step c s) = s_l s + 1"
  "s_val (idx_step c s) = s_val s"
  "s_pfile (idx_step c s) = s_pfile s"
  "s_k (idx_step c s) = s_k s + (if c then 1 else 0)"
  by (simp_all add: idx_step_def)

lemma idx_step_pt:
  "pt_len (s_pt (idx_step c s)) = pt_len (s_pt s)"
  "pt_idxlen (s_pt (idx_step c s)) = pt_idxlen (s_pt s)"
  "pt_ncols (s_pt (idx_step c s)) = pt_ncols (s_pt s)"
  "pt_begin (s_pt (idx_step c s)) = pt_begin (s_pt s)"
  "pt_end (s_pt (idx_step c s)) = pt_end (s_pt s)"
  "pt_step (s_pt (idx_step c s)) = pt_step (s_pt s)"
  "pt_invstep (s_pt (idx_step c s)) = pt_invstep (s_pt s)"
  "pt_first (s_pt (idx_step c s)) = pt_first (s_pt s)"
  "pt_last (s_pt (idx_step c s)) = pt_last (s_pt s)"
  "pt_xcoord (s_pt (idx_step c s)) = pt_xcoord (s_pt s)"
  "pt_table (s_pt (idx_step c s)) = pt_table (s_pt s)"
  "pt_d2tab (s_pt (idx_step c s)) = pt_d2tab (s_pt s)"
  by (simp_all add: idx_step_def)

subsection \<open>The loop over the sample points\<close>

lemma same_info_refl: "same_info pt pt"
  by (simp add: same_info_def)

lemma same_info_trans: "same_info a b \<Longrightarrow> same_info b c \<Longrightarrow> same_info a c"
  by (simp add: same_info_def)

lemma same_info_idx_step: "same_info (s_pt s) (s_pt (idx_step c s))"
  by (simp add: same_info_def idx_step_pt)

lemma fscanf_lf_Some: "fscanf_lf pf = Some (x, pf') \<Longrightarrow> \<exists>t. pf = t # pf' \<and> conv_lf t = Some x"
  by (cases pf) (auto split: option.splits)

lemma fscanf_lf_lf_Some:
  "fscanf_lf_lf pf = Some ((x, y), pf') \<Longrightarrow>
   \<exists>t u. pf = t # u # pf' \<and> conv_lf t = Some x \<and> conv_lf u = Some y"
  by (induction pf rule: fscanf_lf_lf.induct) (auto split: option.splits)

lemma sample_slots_0: "sample_slots b g nvals kd i l0 0 = []"
  by (simp add: sample_slots_def)

lemma sample_slots_Suc:
  "sample_slots b g nvals kd i l0 (Suc j) =
   sample_slots b g nvals kd i l0 j @ (if sample_free b g kd i j (nvals i) then [l0 + int j] else [])"
  by (simp add: sample_slots_def)

lemma value_line_fields:
  "s_l (value_line b g nvals kd i j x pf' s) = s_l s + 1"
  "s_val (value_line b g nvals kd i j x pf' s) = s_val s + 1"
  "s_pfile (value_line b g nvals kd i j x pf' s) = pf'"
  by (simp_all add: value_line_def Let_def idx_step_fields)

lemma value_line_stored:
  "stored (value_line b g nvals kd i j x pf' s) =
   stored s @ (if sample_free b g kd i j (nvals i) then [s_l s] else [])"
  by (simp add: value_line_def Let_def stored_idx_step) (simp add: stored_def)

lemma value_line_info: "same_info (s_pt s) (s_pt (value_line b g nvals kd i j x pf' s))"
  by (simp add: value_line_def Let_def same_info_def idx_step_pt)

lemma value_line_xcoord:
  "pt_xcoord (s_pt (value_line b g nvals kd i j x pf' s)) =
   (pt_xcoord (s_pt s))(s_l s := double_add_mul (pt_begin (s_pt s) i) j (pt_step (s_pt s) i))"
  by (simp add: value_line_def Let_def idx_step_pt)

lemma values_inv_0: "values_inv b g nvals kd i s0 0 s0"
  by (simp add: values_inv_def sample_slots_0 same_info_refl)

lemma values_inv_step:
  assumes inv: "values_inv b g nvals kd i s0 j s"
    and sc: "fscanf_lf (s_pfile s) = Some (x, pf')"
  shows "values_inv b g nvals kd i s0 (Suc j) (value_line b g nvals kd i j x pf' s)"
proof -
  let ?s = "value_line b g nvals kd i j x pf' s"
  from fscanf_lf_Some[OF sc] obtain t where t: "s_pfile s = t # pf'" by blast
  from inv have l: "s_l s = s_l s0 + int j" and pf: "s_pfile s = drop j (s_pfile s0)"
    and si: "same_info (s_pt s0) (s_pt s)" by (simp_all add: values_inv_def)
  have d: "drop j (s_pfile s0) = t # pf'" using t pf by simp
  then have jl: "j < length (s_pfile s0)" by (metis drop_eq_Nil list.distinct(1) not_less)
  have d': "pf' = drop (Suc j) (s_pfile s0)" using d by (metis drop_Suc list.sel(3) tl_drop)
  have be: "pt_begin (s_pt s) i = pt_begin (s_pt s0) i" "pt_step (s_pt s) i = pt_step (s_pt s0) i"
    using si by (simp_all add: same_info_def)
  have x1: "\<forall>j'<Suc j. pt_xcoord (s_pt ?s) (s_l s0 + int j') =
                double_add_mul (pt_begin (s_pt s0) i) j' (pt_step (s_pt s0) i)"
    using inv l be by (auto simp: value_line_xcoord values_inv_def less_Suc_eq)
  have x2: "\<forall>x. x < s_l s0 \<or> s_l s0 + int (Suc j) \<le> x \<longrightarrow> pt_xcoord (s_pt ?s) x = pt_xcoord (s_pt s0) x"
    using inv l by (auto simp: value_line_xcoord values_inv_def)
  have st: "stored ?s = stored s0 @ sample_slots b g nvals kd i (s_l s0) (Suc j)"
    using inv l by (simp add: value_line_stored sample_slots_Suc values_inv_def)
  have "same_info (s_pt s0) (s_pt ?s)" using si value_line_info same_info_trans by blast
  with x1 x2 st inv l jl d' show ?thesis
    unfolding values_inv_def value_line_fields by simp
qed

lemma read_values_post:
  assumes "read_values b ps g nvals kd i 0 s = Inr s'"
  shows "values_inv b g nvals kd i s (nat (nvals i)) s'"
proof -
  have "values_inv b g nvals kd i s (max 0 (nat (nvals i))) s'"
    using assms
  proof (rule read_values_invariant)
    show "values_inv b g nvals kd i s 0 s" by (rule values_inv_0)
  next
    fix j s1 x pf'
    assume "values_inv b g nvals kd i s j s1" "fscanf_lf (s_pfile s1) = Some (x, pf')"
    then show "values_inv b g nvals kd i s (Suc j) (value_line b g nvals kd i j x pf' s1)"
      by (rule values_inv_step)
  qed
  then show ?thesis by simp
qed

subsection \<open>The body of a loop over functions\<close>

lemma gradient_slots_fields:
  "s_l (gradient_slots g i pf' x y s) = s_l s + 2"
  "s_val (gradient_slots g i pf' x y s) = s_val s + 2"
  "s_pfile (gradient_slots g i pf' x y s) = pf'"
  by (simp_all add: gradient_slots_def Let_def idx_step_fields)

lemma gradient_slots_stored:
  "stored (gradient_slots g i pf' x y s) =
   stored s @ (if invar_pot g i = 0 \<and> drop_bit 1 (gradient g i) \<noteq> 0 then [s_l s] else []) @
     (if invar_pot g i = 0 \<and> gradient g i smod 2 \<noteq> 0 then [s_l s + 1] else [])"
  by (simp add: gradient_slots_def Let_def stored_idx_step idx_step_fields) (simp add: stored_def)

lemma gradient_slots_info: "same_info (s_pt s) (s_pt (gradient_slots g i pf' x y s))"
  by (simp add: gradient_slots_def Let_def same_info_def idx_step_pt)

lemma gradient_slots_xcoord:
  "pt_xcoord (s_pt (gradient_slots g i pf' x y s)) = pt_xcoord (s_pt s)"
  by (simp add: gradient_slots_def Let_def idx_step_pt)

lemma read_gradient_Inr:
  "read_gradient ps kd i pf = Inr (pf', x, y) \<Longrightarrow>
   pf' = drop (if have_gradient ps \<noteq> 0 then 2 else 0) pf \<and>
   (if have_gradient ps \<noteq> 0 then 2 else 0) \<le> length pf"
  by (auto simp: read_gradient_def split: if_splits option.splits dest!: fscanf_lf_lf_Some)

lemma read_gradient_Inl:
  "read_gradient ps kd i pf = Inl e \<Longrightarrow>
   have_gradient ps \<noteq> 0 \<and> fscanf_lf_lf pf = None \<and>
   e = [Msg 1 (gradient_msg kd) (gradient_args kd ps i)]"
  by (auto simp: read_gradient_def split: if_splits option.splits)

lemma read_function_post:
  assumes r: "read_function b ps g nvals kd i s = Inr s'"
  shows "function_post b ps g nvals kd i s s'"
proof -
  from r have dom: "kd = Embed \<and> \<not> RESCALE b \<longrightarrow> \<not> (pt_begin (s_pt s) i > 1 \<or> pt_end (s_pt s) i < 1)"
    by (auto simp: read_function_def split: if_splits)
  from r obtain pf' x y where rg: "read_gradient ps kd i (s_pfile s) = Inr (pf', x, y)"
    and rv: "read_values b ps g nvals kd i 0 (gradient_slots g i pf' x y s) = Inr s'"
    by (auto simp: read_function_def split: if_splits sum.splits)
  let ?s1 = "gradient_slots g i pf' x y s"
  let ?h = "if have_gradient ps \<noteq> 0 then 2 else 0 :: nat"
  from read_gradient_Inr[OF rg] have pf': "pf' = drop ?h (s_pfile s)" and hl: "?h \<le> length (s_pfile s)"
    by simp_all
  from read_values_post[OF rv] have vi: "values_inv b g nvals kd i ?s1 (nat (nvals i)) s'" .
  then have l: "s_l s' = s_l s + function_len nvals i" and v: "s_val s' = s_val s + function_len nvals i"
    by (simp_all add: values_inv_def gradient_slots_fields function_len_def)
  from vi have st: "stored s' = stored s @ function_slots b g nvals kd i (s_l s)"
    by (simp add: values_inv_def gradient_slots_fields gradient_slots_stored function_slots_def)
  from vi have "s_pfile s' = drop (nat (nvals i)) pf'" "nat (nvals i) \<le> length pf'"
    by (simp_all add: values_inv_def gradient_slots_fields)
  with pf' hl have pf: "s_pfile s' = drop (function_fields ps nvals i) (s_pfile s)"
    "function_fields ps nvals i \<le> length (s_pfile s)"
    by (auto simp: function_fields_def add.commute)
  from vi have "same_info (s_pt ?s1) (s_pt s')" by (simp add: values_inv_def)
  with gradient_slots_info have si: "same_info (s_pt s) (s_pt s')" by (rule same_info_trans)
  have be: "pt_begin (s_pt ?s1) i = pt_begin (s_pt s) i" "pt_step (s_pt ?s1) i = pt_step (s_pt s) i"
    using gradient_slots_info[of s g i pf' x y] by (simp_all add: same_info_def)
  from vi be have x1: "\<forall>j<nat (nvals i). pt_xcoord (s_pt s') (s_l s + 2 + int j) =
                double_add_mul (pt_begin (s_pt s) i) j (pt_step (s_pt s) i)"
    by (simp add: values_inv_def gradient_slots_fields)
  from vi have x2: "\<forall>x. x < s_l s + 2 \<or> s_l s + function_len nvals i \<le> x \<longrightarrow>
            pt_xcoord (s_pt s') x = pt_xcoord (s_pt s) x"
    by (simp add: values_inv_def gradient_slots_fields gradient_slots_xcoord function_len_def add.assoc)
  from l v st pf si x1 x2 dom show ?thesis unfolding function_post_def by blast
qed

lemma read_function_Inl:
  assumes "read_function b ps g nvals kd i s = Inl e"
  shows "(kd = Embed \<and> \<not> RESCALE b \<and> (pt_begin (s_pt s) i > 1 \<or> pt_end (s_pt s) i < 1) \<and>
          e = F1_msgs (pt_begin (s_pt s) i) (pt_end (s_pt s) i)) \<or>
         (have_gradient ps \<noteq> 0 \<and> e = [Msg 1 (gradient_msg kd) (gradient_args kd ps i)]) \<or>
         (\<exists>j. int j < nvals i \<and>
              e = [Msg 1 (values_msg kd) [AStr (filename ps), AInt (int i), AInt (int j)]])"
proof (cases "kd = Embed \<and> \<not> RESCALE b \<and> (pt_begin (s_pt s) i > 1 \<or> pt_end (s_pt s) i < 1)")
  case True
  with assms show ?thesis by (auto simp: read_function_def)
next
  case False
  show ?thesis
  proof (cases "read_gradient ps kd i (s_pfile s)")
    case (Inl e')
    with assms False have "e = e'" by (auto simp: read_function_def)
    with read_gradient_Inl[OF Inl] show ?thesis by simp
  next
    case (Inr r)
    then obtain pf' x y where "read_gradient ps kd i (s_pfile s) = Inr (pf', x, y)"
      by (cases r) auto
    with assms False have "read_values b ps g nvals kd i 0 (gradient_slots g i pf' x y s) = Inl e"
      by (auto simp: read_function_def)
    from read_values_Inl[OF this] show ?thesis by blast
  qed
qed

subsection \<open>Sequences of bodies\<close>

lemma and_then_Inr: "and_then r f = Inr s' \<longleftrightarrow> (\<exists>s. r = Inr s \<and> f s = Inr s')"
  by (cases r) (simp_all add: and_then_def)

lemma and_then_Inl: "and_then r f = Inl e \<longleftrightarrow> (r = Inl e \<or> (\<exists>s. r = Inr s \<and> f s = Inl e))"
  by (cases r) (simp_all add: and_then_def)

lemma and_then_simps [simp]: "and_then (Inr s) f = f s" "and_then (Inl e) f = Inl e"
  by (simp_all add: and_then_def)

lemma read_blocks_append:
  "read_blocks b ps g nvals (xs @ ys) s =
   and_then (read_blocks b ps g nvals xs s) (read_blocks b ps g nvals ys)"
proof (induction xs arbitrary: s)
  case Nil
  show ?case by simp
next
  case (Cons a xs)
  obtain kd i where a: "a = (kd, i)" by (cases a)
  show ?case
  proof (cases "read_function b ps g nvals kd i s")
    case (Inl e)
    then show ?thesis by (simp add: a)
  next
    case (Inr s1)
    then show ?thesis using Cons.IH by (simp add: a)
  qed
qed

lemma read_functions_blocks:
  "read_functions b ps g nvals kd lo hi s =
   read_blocks b ps g nvals (map (\<lambda>i. (kd, i)) [lo..<hi]) s"
proof (induction "hi - lo" arbitrary: lo s)
  case 0
  then show ?case by (subst read_functions.simps) simp
next
  case (Suc d)
  then have lt: "lo < hi" and d: "d = hi - Suc lo" by simp_all
  have u: "[lo..<hi] = lo # [Suc lo..<hi]" using lt by (simp add: upt_rec)
  show ?case
  proof (cases "read_function b ps g nvals kd lo s")
    case (Inl e)
    then show ?thesis using lt by (subst read_functions.simps) (simp add: u)
  next
    case (Inr s1)
    then show ?thesis using lt Suc.hyps(1)[OF d, of s1]
      by (subst read_functions.simps) (simp add: u)
  qed
qed


lemma blocks_fields_append:
  "blocks_fields ps nvals (xs @ ys) = blocks_fields ps nvals xs + blocks_fields ps nvals ys"
  by (induction xs) auto


lemma function_len_nonneg: "0 \<le> function_len nvals i" "2 \<le> function_len nvals i"
  by (simp_all add: function_len_def)

lemma blocks_len_nonneg: "0 \<le> blocks_len nvals blks"
  by (induction blks) (auto simp: function_len_def)

lemma read_blocks_post:
  "read_blocks b ps g nvals blks s = Inr s' \<Longrightarrow> blocks_post b ps g nvals blks s s'"
proof (induction blks arbitrary: s)
  case Nil
  then show ?case by (simp add: blocks_post_def same_info_refl)
next
  case (Cons a blks)
  obtain kd i where a: "a = (kd, i)" by (cases a)
  from Cons.prems obtain s1 where f: "read_function b ps g nvals kd i s = Inr s1"
    and r: "read_blocks b ps g nvals blks s1 = Inr s'"
    by (auto simp: a and_then_Inr)
  from read_function_post[OF f] have fp: "function_post b ps g nvals kd i s s1" .
  from Cons.IH[OF r] have bp: "blocks_post b ps g nvals blks s1 s'" .
  have l1: "s_l s1 = s_l s + function_len nvals i" using fp by (simp add: function_post_def)
  have "same_info (s_pt s) (s_pt s1)" "same_info (s_pt s1) (s_pt s')"
    using fp bp by (simp_all add: function_post_def blocks_post_def)
  then have si: "same_info (s_pt s) (s_pt s')" by (rule same_info_trans)
  have pf: "s_pfile s' = drop (blocks_fields ps nvals (a # blks)) (s_pfile s)"
    "blocks_fields ps nvals (a # blks) \<le> length (s_pfile s)"
    using fp bp by (auto simp: function_post_def blocks_post_def a add.commute)
  have x: "\<forall>x. x < s_l s \<or> s_l s + blocks_len nvals (a # blks) \<le> x \<longrightarrow>
            pt_xcoord (s_pt s') x = pt_xcoord (s_pt s) x"
  proof (intro allI impI)
    fix x assume "x < s_l s \<or> s_l s + blocks_len nvals (a # blks) \<le> x"
    then have c: "x < s_l s1 \<or> s_l s1 + blocks_len nvals blks \<le> x"
      "x < s_l s + 2 \<or> s_l s + function_len nvals i \<le> x"
      using l1 function_len_nonneg[of nvals i] blocks_len_nonneg[of nvals blks] by (auto simp: a)
    from bp c(1) have "pt_xcoord (s_pt s') x = pt_xcoord (s_pt s1) x"
      unfolding blocks_post_def by blast
    moreover from fp c(2) have "pt_xcoord (s_pt s1) x = pt_xcoord (s_pt s) x"
      unfolding function_post_def by blast
    ultimately show "pt_xcoord (s_pt s') x = pt_xcoord (s_pt s) x" by simp
  qed
  from fp bp l1 si pf x show ?case
    unfolding blocks_post_def by (simp add: function_post_def blocks_post_def a add.assoc)
qed


lemma read_blocks_Inl:
  "read_blocks b ps g nvals blks s = Inl e \<Longrightarrow>
   \<exists>pre kd i post s1. blks = pre @ (kd, i) # post \<and> read_blocks b ps g nvals pre s = Inr s1 \<and>
      read_function b ps g nvals kd i s1 = Inl e"
proof (induction blks arbitrary: s)
  case Nil
  then show ?case by simp
next
  case (Cons a blks)
  obtain kd i where a: "a = (kd, i)" by (cases a)
  show ?case
  proof (cases "read_function b ps g nvals kd i s")
    case (Inl e')
    with Cons.prems have "e' = e" by (simp add: a)
    with Inl have "a # blks = [] @ (kd, i) # blks \<and> read_blocks b ps g nvals [] s = Inr s \<and>
      read_function b ps g nvals kd i s = Inl e" by (simp add: a)
    then show ?thesis by blast
  next
    case (Inr s1)
    with Cons.prems have "read_blocks b ps g nvals blks s1 = Inl e" by (simp add: a)
    from Cons.IH[OF this] obtain pre kd' i' post s2 where
      p: "blks = pre @ (kd', i') # post" "read_blocks b ps g nvals pre s1 = Inr s2"
      "read_function b ps g nvals kd' i' s2 = Inl e" by blast
    then have "a # blks = (a # pre) @ (kd', i') # post \<and> read_blocks b ps g nvals (a # pre) s = Inr s2 \<and>
      read_function b ps g nvals kd' i' s2 = Inl e" using Inr by (simp add: a)
    then show ?thesis by blast
  qed
qed

lemma read_tables_blocks:
  "read_tables b ps g nvals s = read_blocks b ps g nvals (layout b g) s"
  by (simp add: read_tables_def layout_def read_eam_def read_adp_def read_meam_def
      read_functions_blocks read_blocks_append and_then_def split: sum.splits)

subsection \<open>The slots entered in the index\<close>









subsection \<open>Builds for one interaction model\<close>








subsection \<open>From the result of \<open>read_pot_table3\<close> to the loops\<close>

lemma read_pot_table3_Inr:
  assumes "read_pot_table3 b g fresh pt0 fn pf ps = Inr pt"
  shows "\<not> APOT b \<and> \<not> KIM b \<and>
    (\<exists>pf1 pt1 nvals s. read_info_block ps 0 pf (pt0, new_nvals fresh) = Inr (pf1, pt1, nvals) \<and>
       read_blocks b ps g nvals (layout b g) (allocate fresh pf1 pt1) = Inr s \<and>
       pt = (s_pt s)\<lparr>pt_idxlen := int (s_k s)\<rparr>)"
  using assms
  by (auto simp: read_pot_table3_def and_then_Inr read_tables_blocks split: if_splits)

lemma final_state:
  assumes info: "read_info_block ps 0 pf (pt0, new_nvals fresh) = Inr (pf1, pt1, nvals)"
    and res: "read_pot_table3 b g fresh pt0 fn pf ps = Inr pt"
  shows "\<exists>s. read_blocks b ps g nvals (layout b g) (allocate fresh pf1 pt1) = Inr s \<and>
       pt = (s_pt s)\<lparr>pt_idxlen := int (s_k s)\<rparr>"
  using read_pot_table3_Inr[OF res] info by auto

lemma allocate_fields:
  "s_l (allocate fresh pf pt) = 0" "s_k (allocate fresh pf pt) = 0" "s_val (allocate fresh pf pt) = 0"
  "s_pfile (allocate fresh pf pt) = pf" "stored (allocate fresh pf pt) = []"
  "pt_xcoord (s_pt (allocate fresh pf pt)) = new_xcoord fresh"
  "pt_begin (s_pt (allocate fresh pf pt)) = pt_begin pt"
  "pt_end (s_pt (allocate fresh pf pt)) = pt_end pt"
  "pt_step (s_pt (allocate fresh pf pt)) = pt_step pt"
  "pt_invstep (s_pt (allocate fresh pf pt)) = pt_invstep pt"
  "pt_first (s_pt (allocate fresh pf pt)) = pt_first pt"
  "pt_last (s_pt (allocate fresh pf pt)) = pt_last pt"
  "pt_len (s_pt (allocate fresh pf pt)) = pt_len pt"
  "pt_ncols (s_pt (allocate fresh pf pt)) = pt_ncols pt"
  by (simp_all add: allocate_def stored_def)

lemma free_indices_final: "free_indices ((s_pt s)\<lparr>pt_idxlen := int (s_k s)\<rparr>) = stored s"
  by (simp add: free_indices_def stored_def)

text \<open>The table returned: the fields of the info block, and the index.\<close>

lemma final_table:
  assumes info: "read_info_block ps 0 pf (pt0, new_nvals fresh) = Inr (pf1, pt1, nvals)"
    and res: "read_pot_table3 b g fresh pt0 fn pf ps = Inr pt"
  shows "pt_begin pt = pt_begin pt1" "pt_end pt = pt_end pt1" "pt_step pt = pt_step pt1"
    "pt_invstep pt = pt_invstep pt1" "pt_first pt = pt_first pt1" "pt_last pt = pt_last pt1"
    "pt_len pt = pt_len pt1" "pt_ncols pt = pt_ncols pt1"
    "free_indices pt = blocks_slots b g nvals (layout b g) 0"
    "pt_idxlen pt = int (length (free_indices pt))"
    "blocks_fields ps nvals (layout b g) \<le> length pf1"
proof -
  from final_state[OF info res] obtain s where
    r: "read_blocks b ps g nvals (layout b g) (allocate fresh pf1 pt1) = Inr s"
    and pt: "pt = (s_pt s)\<lparr>pt_idxlen := int (s_k s)\<rparr>" by blast
  from read_blocks_post[OF r] have bp: "blocks_post b ps g nvals (layout b g) (allocate fresh pf1 pt1) s" .
  then have si: "same_info (s_pt (allocate fresh pf1 pt1)) (s_pt s)" by (simp add: blocks_post_def)
  from si show "pt_begin pt = pt_begin pt1" "pt_end pt = pt_end pt1" "pt_step pt = pt_step pt1"
    "pt_invstep pt = pt_invstep pt1" "pt_first pt = pt_first pt1" "pt_last pt = pt_last pt1"
    "pt_len pt = pt_len pt1" "pt_ncols pt = pt_ncols pt1"
    by (simp_all add: same_info_def allocate_fields pt)
  from bp show fi: "free_indices pt = blocks_slots b g nvals (layout b g) 0"
    by (simp add: blocks_post_def allocate_fields pt free_indices_final)
  show "pt_idxlen pt = int (length (free_indices pt))"
    by (simp add: pt free_indices_def)
  from bp show "blocks_fields ps nvals (layout b g) \<le> length pf1"
    by (simp add: blocks_post_def allocate_fields)
qed

subsection \<open>Offsets of the functions in a build for one model\<close>








section \<open>The free-parameter index\<close>








lemma sum_case_Inr: "(case r of Inl e \<Rightarrow> False | Inr x \<Rightarrow> P x) \<Longrightarrow> \<exists>x. r = Inr x \<and> P x"
  by (cases r) simp_all

lemmas run_defs =
  read_pot_table3_def and_then_def read_info_block.simps info_line_def int32_small double_div_def
  read_tables_def
  read_eam_def read_adp_def read_meam_def allocate_def read_functions.simps read_function_def
  read_gradient_def gradient_slots_def idx_step_def read_values.simps value_line_def Let_def
  free_indices_def

lemma pair_info:
  "\<exists>pf1 pt1 nvals. read_info_block pair_state 0 pair_file (zero_table, new_nvals zero_memory)
       = Inr (pf1, pt1, nvals) \<and> nvals 0 = 3 \<and> nvals 1 = 2"
  by (simp add: pair_state_def pair_file_def read_info_block.simps info_line_def int32_small)

lemma pair_run:
  "\<exists>pt. read_pot_table3 pair_build pair_globals zero_memory zero_table ''pair.pot'' pair_file
       pair_state = Inr pt \<and> pt_first pt 0 = 2 \<and> pt_last pt 0 = 4 \<and> pt_first pt 1 = 7 \<and>
       pt_last pt 1 = 8 \<and> pt_len pt = 9"
  by (rule sum_case_Inr)
    (simp add: run_defs pair_build_def pair_globals_def pair_state_def pair_file_def
      zero_memory_def zero_table_def)











lemma negative_info:
  "\<exists>pf1 pt1 nvals. read_info_block model_state 0 negative_count_file
       (zero_table, new_nvals zero_memory) = Inr (pf1, pt1, nvals) \<and>
     nvals 0 = - 3 \<and> nvals 1 = 2 \<and> nvals 2 = 2 \<and> nvals 3 = 2 \<and> nvals 4 = 2"
  by (simp add: model_state_def negative_count_file_def read_info_block.simps info_line_def
      int32_small)


section \<open>Order and bounds of the index, and the coordinates\<close>


















section \<open>The check of the embedding functions\<close>







section \<open>Failures\<close>

lemma read_info_block_fail_at:
  assumes "i0 \<le> i" and "i < num_pots ps"
    and "\<forall>m. i0 \<le> m \<and> m < i \<longrightarrow> fscanf_lf_lf_d (drop (3 * (m - i0)) pf) \<noteq> None"
    and "fscanf_lf_lf_d (drop (3 * (i - i0)) pf) = None"
  shows "read_info_block ps i0 pf s = Inl [Msg 1 info_block_msg [AStr (filename ps), AInt (int i)]]"
  using assms
proof (induction "i - i0" arbitrary: i0 pf s)
  case 0
  then have "i0 = i" by simp
  with 0 show ?case by (simp add: read_info_block_fail)
next
  case (Suc d)
  then have lt: "i0 < i" and i0: "i0 < num_pots ps" by simp_all
  have "fscanf_lf_lf_d (drop (3 * (i0 - i0)) pf) \<noteq> None" using Suc.prems(3) lt by blast
  then obtain b e n pf1 where sc: "fscanf_lf_lf_d pf = Some ((b, e, n), pf1)"
    by (cases "fscanf_lf_lf_d pf") auto
  from fscanf_lf_lf_d_Some[OF sc] obtain x y z where pf: "pf = x # y # z # pf1" by blast
  have dr: "drop (3 * (m - i0)) pf = drop (3 * (m - Suc i0)) pf1" if "Suc i0 \<le> m" for m
  proof -
    have "m - i0 = Suc (m - Suc i0)" using that by simp
    then show ?thesis using pf drop3 by metis
  qed
  have d: "d = i - Suc i0" using Suc.hyps(2) by simp
  have le: "Suc i0 \<le> i" using lt by simp
  have a: "\<forall>m. Suc i0 \<le> m \<and> m < i \<longrightarrow> fscanf_lf_lf_d (drop (3 * (m - Suc i0)) pf1) \<noteq> None"
    using Suc.prems(3) dr by (metis Suc_leD)
  have b: "fscanf_lf_lf_d (drop (3 * (i - Suc i0)) pf1) = None"
    using Suc.prems(4) dr[OF le] by simp
  from Suc.hyps(1)[OF d le Suc.prems(2) a b, of "info_line i0 b e n s"]
    read_info_block_step[OF i0 sc, of s]
  show ?case by simp
qed

lemma read_info_block_Inl:
  "read_info_block ps i0 pf s = Inl e \<Longrightarrow>
   \<exists>i<num_pots ps. e = [Msg 1 info_block_msg [AStr (filename ps), AInt (int i)]]"
proof (induction "num_pots ps - i0" arbitrary: i0 pf s)
  case 0
  then show ?case by (simp add: read_info_block_done)
next
  case (Suc d)
  then have lt: "i0 < num_pots ps" by simp
  show ?case
  proof (cases "fscanf_lf_lf_d pf")
    case None
    with Suc.prems lt show ?thesis by (auto simp: read_info_block_fail)
  next
    case (Some a)
    then obtain b e' n pf1 where sc: "fscanf_lf_lf_d pf = Some ((b, e', n), pf1)"
      by (cases a) auto
    have d: "d = num_pots ps - Suc i0" using Suc.hyps(2) by simp
    from Suc.hyps(1)[OF d] Suc.prems read_info_block_step[OF lt sc, of s]
    show ?thesis by simp
  qed
qed

text \<open>When \<^verbatim>\<open>fscanf\<close> does not make all its conversions.\<close>

lemma fscanf_lf_lf_d_None:
  "fscanf_lf_lf_d pf = None \<longleftrightarrow>
   length pf < 3 \<or> conv_lf (pf ! 0) = None \<or> conv_lf (pf ! 1) = None \<or> conv_d (pf ! 2) = None"
  by (induction pf rule: fscanf_lf_lf_d.induct) (auto split: option.splits)

lemma fscanf_lf_lf_None:
  "fscanf_lf_lf pf = None \<longleftrightarrow>
   length pf < 2 \<or> conv_lf (pf ! 0) = None \<or> conv_lf (pf ! 1) = None"
  by (induction pf rule: fscanf_lf_lf.induct) (auto split: option.splits)

lemma fscanf_lf_None:
  "fscanf_lf pf = None \<longleftrightarrow> pf = [] \<or> conv_lf (pf ! 0) = None"
  by (cases pf) (auto split: option.splits)

text \<open>
  The arguments of the gradient diagnostic: the file name and the function, except in the
  loop of the angular part of MEAM.
\<close>

lemma gradient_args_eq:
  "gradient_args kd ps i =
   (if kd = MEAM_g then [AStr (filename ps)] else [AStr (filename ps), AInt (int i)])"
  by (cases kd) simp_all

text \<open>The diagnostics of a run that terminates.\<close>

lemma function_failure:
  assumes "read_function b ps g nvals kd i s = Inl e"
  shows "(kd \<noteq> MEAM_g \<and> e = [Msg 1 (gradient_msg kd) [AStr (filename ps), AInt (int i)]]) \<or>
         (kd = MEAM_g \<and> e = [Msg 1 (gradient_msg MEAM_g) [AStr (filename ps)]]) \<or>
         (\<exists>j. e = [Msg 1 (values_msg kd) [AStr (filename ps), AInt (int i), AInt (int j)]]) \<or>
         (\<exists>x y. kd = Embed \<and> (1 < x \<or> y < 1) \<and> e = F1_msgs x y)"
proof -
  from read_function_Inl[OF assms] consider
    (F1) "kd = Embed" "pt_begin (s_pt s) i > 1 \<or> pt_end (s_pt s) i < 1"
      "e = F1_msgs (pt_begin (s_pt s) i) (pt_end (s_pt s) i)"
    | (grad) "e = [Msg 1 (gradient_msg kd) (gradient_args kd ps i)]"
    | (vals) j where "e = [Msg 1 (values_msg kd) [AStr (filename ps), AInt (int i), AInt (int j)]]"
    by blast
  then show ?thesis
  proof cases
    case F1
    then show ?thesis by blast
  next
    case grad
    then show ?thesis by (simp add: gradient_args_eq)
  next
    case vals
    then show ?thesis by blast
  qed
qed

lemma run_failure:
  assumes "read_pot_table3 b g fresh pt0 fn pf ps = Inl e" and "\<not> APOT b" and "\<not> KIM b"
  shows "(\<exists>i<num_pots ps. e = [Msg 1 info_block_msg [AStr (filename ps), AInt (int i)]]) \<or>
         (\<exists>kd i. (kd, i) \<in> set (layout b g) \<and>
            ((kd \<noteq> MEAM_g \<and> e = [Msg 1 (gradient_msg kd) [AStr (filename ps), AInt (int i)]]) \<or>
             (kd = MEAM_g \<and> e = [Msg 1 (gradient_msg MEAM_g) [AStr (filename ps)]]) \<or>
             (\<exists>j. e = [Msg 1 (values_msg kd) [AStr (filename ps), AInt (int i), AInt (int j)]]) \<or>
             (\<exists>x y. kd = Embed \<and> (1 < x \<or> y < 1) \<and> e = F1_msgs x y)))"
proof (cases "read_info_block ps 0 pf (pt0, new_nvals fresh)")
  case (Inl e')
  with assms have "e = e'" by (simp add: read_pot_table3_def)
  with read_info_block_Inl[OF Inl] show ?thesis by auto
next
  case (Inr r)
  obtain pf1 pt1 nvals where r: "r = (pf1, pt1, nvals)" by (cases r)
  from assms Inr r have "read_blocks b ps g nvals (layout b g) (allocate fresh pf1 pt1) = Inl e"
    by (auto simp: read_pot_table3_def read_tables_blocks and_then_Inl)
  from read_blocks_Inl[OF this] obtain pre kd i post s1 where
    l: "layout b g = pre @ (kd, i) # post" and
    f: "read_function b ps g nvals kd i s1 = Inl e" by blast
  from l have "(kd, i) \<in> set (layout b g)" by simp
  with function_failure[OF f] show ?thesis by blast
qed

lemma fatal_diagnostics:
  "msg_done (last (F1_msgs x y)) = 1" "F1_msgs x y \<noteq> []"
  "msg_done (last [Msg 1 f as]) = 1"
  by (simp_all add: F1_msgs_def)

lemma run_needs_fields:
  assumes res: "read_pot_table3 b g fresh pt0 fn pf ps = Inr pt"
    and info: "read_info_block ps 0 pf (pt0, new_nvals fresh) = Inr (pf1, pt1, nvals)"
  shows "3 * num_pots ps + blocks_fields ps nvals (layout b g) \<le> length pf"
proof -
  from info_len[OF info] have "pf1 = drop (3 * num_pots ps) pf" "3 * num_pots ps \<le> length pf"
    by simp_all
  with final_table(11)[OF info res] show ?thesis by simp
qed

text \<open>
  Claim C4, as amended. The file is read field by field: \<^verbatim>\<open>fscanf\<close> skips white space,
  the ends of lines included, and does not make all its conversions exactly when too few
  fields are left in the file or one of those it needs is not a number (for the sample
  count: not an integer). In a build that compiles the function: (1) when the three header
  fields of function \<open>i\<close> are the first that are not converted, the run terminates with the
  diagnostic of the info block, which names the file and \<open>i\<close>; (2) when the two gradient
  fields of a function are not converted although \<^verbatim>\<open>have_gradient\<close> is set, the body of the
  function terminates the run with the gradient diagnostic of its loop, which names the
  file and the function, except in the loop of the angular part of MEAM, where it names
  the file only; (3) when the value of sample \<open>j\<close> is not converted, the loop over the
  samples terminates the run with the diagnostic that names the file, the function and
  \<open>j\<close>; (4) every run that terminates ends with one of these diagnostics or with those of
  the check of the domain of an embedding function, and the last diagnostic is fatal;
  (5) a run that returns a table has found the three fields of every header line and every
  field the bodies read. No step is checked.
\<close>

theorem C4_fatal_on_incomplete_file:
  assumes "\<not> APOT b" and "\<not> KIM b"
  shows "(fscanf_lf_lf_d pf = None \<longleftrightarrow>
            length pf < 3 \<or> conv_lf (pf ! 0) = None \<or> conv_lf (pf ! 1) = None \<or>
            conv_d (pf ! 2) = None) \<and>
         (fscanf_lf_lf pf = None \<longleftrightarrow>
            length pf < 2 \<or> conv_lf (pf ! 0) = None \<or> conv_lf (pf ! 1) = None) \<and>
         (fscanf_lf pf = None \<longleftrightarrow> pf = [] \<or> conv_lf (pf ! 0) = None) \<and>
         (i < num_pots pstate \<and>
          (\<forall>m<i. fscanf_lf_lf_d (drop (3 * m) pfile) \<noteq> None) \<and>
          fscanf_lf_lf_d (drop (3 * i) pfile) = None \<longrightarrow>
          read_pot_table3 b g fresh pt0 potential_filename pfile pstate =
          Inl [Msg 1 info_block_msg [AStr (filename pstate), AInt (int i)]]) \<and>
         (\<forall>s. have_gradient pstate \<noteq> 0 \<and> fscanf_lf_lf (s_pfile s) = None \<and>
              \<not> (kd = Embed \<and> \<not> RESCALE b \<and> (1 < pt_begin (s_pt s) i \<or> pt_end (s_pt s) i < 1)) \<longrightarrow>
              read_function b pstate g nvals kd i s =
              Inl [Msg 1 (gradient_msg kd)
                    (if kd = MEAM_g then [AStr (filename pstate)]
                     else [AStr (filename pstate), AInt (int i)])]) \<and>
         (\<forall>s. int j < nvals i \<and> fscanf_lf (s_pfile s) = None \<longrightarrow>
              read_values b pstate g nvals kd i j s =
              Inl [Msg 1 (values_msg kd) [AStr (filename pstate), AInt (int i), AInt (int j)]]) \<and>
         (\<forall>e. read_pot_table3 b g fresh pt0 potential_filename pfile pstate = Inl e \<longrightarrow>
              e \<noteq> [] \<and> msg_done (last e) = 1 \<and>
              ((\<exists>i<num_pots pstate.
                  e = [Msg 1 info_block_msg [AStr (filename pstate), AInt (int i)]]) \<or>
               (\<exists>kd i. (kd, i) \<in> set (layout b g) \<and>
                  ((kd \<noteq> MEAM_g \<and>
                    e = [Msg 1 (gradient_msg kd) [AStr (filename pstate), AInt (int i)]]) \<or>
                   (kd = MEAM_g \<and> e = [Msg 1 (gradient_msg MEAM_g) [AStr (filename pstate)]]) \<or>
                   (\<exists>j. e = [Msg 1 (values_msg kd)
                               [AStr (filename pstate), AInt (int i), AInt (int j)]]) \<or>
                   (\<exists>x y. kd = Embed \<and> (1 < x \<or> y < 1) \<and> e = F1_msgs x y))))) \<and>
         (\<forall>pt pfile1 pt1 nv. read_pot_table3 b g fresh pt0 potential_filename pfile pstate = Inr pt \<and>
              read_info_block pstate 0 pfile (pt0, new_nvals fresh) = Inr (pfile1, pt1, nv) \<longrightarrow>
              3 * num_pots pstate + blocks_fields pstate nv (layout b g) \<le> length pfile)"
proof (intro conjI allI impI)
  show "fscanf_lf_lf_d pf = None \<longleftrightarrow>
            length pf < 3 \<or> conv_lf (pf ! 0) = None \<or> conv_lf (pf ! 1) = None \<or>
            conv_d (pf ! 2) = None" by (rule fscanf_lf_lf_d_None)
  show "fscanf_lf_lf pf = None \<longleftrightarrow>
            length pf < 2 \<or> conv_lf (pf ! 0) = None \<or> conv_lf (pf ! 1) = None"
    by (rule fscanf_lf_lf_None)
  show "fscanf_lf pf = None \<longleftrightarrow> pf = [] \<or> conv_lf (pf ! 0) = None" by (rule fscanf_lf_None)
next
  assume h: "i < num_pots pstate \<and>
          (\<forall>m<i. fscanf_lf_lf_d (drop (3 * m) pfile) \<noteq> None) \<and>
          fscanf_lf_lf_d (drop (3 * i) pfile) = None"
  have "read_info_block pstate 0 pfile (pt0, new_nvals fresh) =
     Inl [Msg 1 info_block_msg [AStr (filename pstate), AInt (int i)]]"
    by (rule read_info_block_fail_at) (use h in simp_all)
  with assms show "read_pot_table3 b g fresh pt0 potential_filename pfile pstate =
          Inl [Msg 1 info_block_msg [AStr (filename pstate), AInt (int i)]]"
    by (simp add: read_pot_table3_def)
next
  fix s :: scan_state
  assume "have_gradient pstate \<noteq> 0 \<and> fscanf_lf_lf (s_pfile s) = None \<and>
      \<not> (kd = Embed \<and> \<not> RESCALE b \<and> (1 < pt_begin (s_pt s) i \<or> pt_end (s_pt s) i < 1))"
  then have "read_function b pstate g nvals kd i s =
              Inl [Msg 1 (gradient_msg kd) (gradient_args kd pstate i)]"
    by (auto simp: read_function_def read_gradient_def)
  then show "read_function b pstate g nvals kd i s =
              Inl [Msg 1 (gradient_msg kd)
                    (if kd = MEAM_g then [AStr (filename pstate)]
                     else [AStr (filename pstate), AInt (int i)])]"
    by (simp only: gradient_args_eq)
next
  fix s :: scan_state
  assume "int j < nvals i \<and> fscanf_lf (s_pfile s) = None"
  then show "read_values b pstate g nvals kd i j s =
              Inl [Msg 1 (values_msg kd) [AStr (filename pstate), AInt (int i), AInt (int j)]]"
    by (simp add: read_values_fail)
next
  fix e assume e: "read_pot_table3 b g fresh pt0 potential_filename pfile pstate = Inl e"
  note rf = run_failure[OF e assms]
  have "e \<noteq> [] \<and> msg_done (last e) = 1"
    using rf by (elim disjE exE conjE) (simp_all add: fatal_diagnostics)
  then show "e \<noteq> []" "msg_done (last e) = 1" by simp_all
  from rf show "(\<exists>i<num_pots pstate.
                  e = [Msg 1 info_block_msg [AStr (filename pstate), AInt (int i)]]) \<or>
               (\<exists>kd i. (kd, i) \<in> set (layout b g) \<and>
                  ((kd \<noteq> MEAM_g \<and>
                    e = [Msg 1 (gradient_msg kd) [AStr (filename pstate), AInt (int i)]]) \<or>
                   (kd = MEAM_g \<and> e = [Msg 1 (gradient_msg MEAM_g) [AStr (filename pstate)]]) \<or>
                   (\<exists>j. e = [Msg 1 (values_msg kd)
                               [AStr (filename pstate), AInt (int i), AInt (int j)]]) \<or>
                   (\<exists>x y. kd = Embed \<and> (1 < x \<or> y < 1) \<and> e = F1_msgs x y)))" .
next
  fix pt pfile1 pt1 nv
  assume "read_pot_table3 b g fresh pt0 potential_filename pfile pstate = Inr pt \<and>
      read_info_block pstate 0 pfile (pt0, new_nvals fresh) = Inr (pfile1, pt1, nv)"
  then show "3 * num_pots pstate + blocks_fields pstate nv (layout b g) \<le> length pfile"
    using run_needs_fields by blast
qed

theorem C4_fatal_on_incomplete_file_witness:
  "read_pot_table3 pair_build pair_globals zero_memory zero_table ''pair.pot'' (take 5 pair_file)
       pair_state = Inl [Msg 1 info_block_msg [AStr ''pair.pot'', AInt 1]] \<and>
   read_function pair_build pair_state pair_globals (\<lambda>_. 2) Pair_pot 1 off_domain_state =
     Inl [Msg 1 (gradient_msg Pair_pot) [AStr ''pair.pot'', AInt 1]] \<and>
   read_function pair_build pair_state pair_globals (\<lambda>_. 2) MEAM_g 4 off_domain_state =
     Inl [Msg 1 (gradient_msg MEAM_g) [AStr ''pair.pot'']] \<and>
   (\<exists>e. read_pot_table3 pair_build pair_globals zero_memory zero_table ''pair.pot''
          (butlast pair_file) pair_state = Inl e \<and>
        e = [Msg 1 (values_msg Pair_pot) [AStr ''pair.pot'', AInt 1, AInt 1]] \<and>
        msg_done (last e) = 1) \<and>
   (\<exists>pt. read_pot_table3 pair_build pair_globals zero_memory zero_table ''pair.pot'' pair_file
       pair_state = Inr pt \<and> 15 \<le> length pair_file)"
proof -
  have ab: "\<not> APOT pair_build" "\<not> KIM pair_build" by (simp_all add: pair_build_def)
  note c = C4_fatal_on_incomplete_file[OF ab]
  have h: "1 < num_pots pair_state \<and>
          (\<forall>m<1. fscanf_lf_lf_d (drop (3 * m) (take 5 pair_file)) \<noteq> None) \<and>
          fscanf_lf_lf_d (drop (3 * 1) (take 5 pair_file)) = None"
    by (simp add: pair_state_def pair_file_def)
  from c[where i = 1 and pstate = pair_state and pfile = "take 5 pair_file",
      THEN conjunct2, THEN conjunct2, THEN conjunct2, THEN conjunct1, rule_format, OF h]
  have 1: "read_pot_table3 pair_build pair_globals zero_memory zero_table ''pair.pot''
       (take 5 pair_file) pair_state = Inl [Msg 1 info_block_msg [AStr ''pair.pot'', AInt 1]]"
    by (simp add: pair_state_def)
  have g: "have_gradient pair_state \<noteq> 0 \<and> fscanf_lf_lf (s_pfile off_domain_state) = None \<and>
      \<not> (kd = Embed \<and> \<not> RESCALE pair_build \<and>
         (1 < pt_begin (s_pt off_domain_state) i \<or> pt_end (s_pt off_domain_state) i < 1))"
    if "kd \<noteq> Embed" for kd :: kind and i :: nat
    using that by (simp add: pair_state_def off_domain_state_def)
  from c[where pstate = pair_state and kd = Pair_pot and i = 1 and g = pair_globals
        and nvals = "\<lambda>_. 2",
      THEN conjunct2, THEN conjunct2, THEN conjunct2, THEN conjunct2, THEN conjunct1,
      rule_format, OF g]
  have 2: "read_function pair_build pair_state pair_globals (\<lambda>_. 2) Pair_pot 1 off_domain_state =
     Inl [Msg 1 (gradient_msg Pair_pot) [AStr ''pair.pot'', AInt 1]]"
    by (simp add: pair_state_def)
  from c[where pstate = pair_state and kd = MEAM_g and i = 4 and g = pair_globals
        and nvals = "\<lambda>_. 2",
      THEN conjunct2, THEN conjunct2, THEN conjunct2, THEN conjunct2, THEN conjunct1,
      rule_format, OF g]
  have 3: "read_function pair_build pair_state pair_globals (\<lambda>_. 2) MEAM_g 4 off_domain_state =
     Inl [Msg 1 (gradient_msg MEAM_g) [AStr ''pair.pot'']]"
    by (simp add: pair_state_def)
  have r: "read_pot_table3 pair_build pair_globals zero_memory zero_table ''pair.pot''
          (butlast pair_file) pair_state =
        Inl [Msg 1 (values_msg Pair_pot) [AStr ''pair.pot'', AInt 1, AInt 1]]"
    by (simp add: run_defs pair_build_def pair_globals_def pair_state_def pair_file_def
      zero_memory_def zero_table_def)
  from c[where pstate = pair_state and pfile = "butlast pair_file",
      THEN conjunct2, THEN conjunct2, THEN conjunct2,
      THEN conjunct2, THEN conjunct2, THEN conjunct2, THEN conjunct1, rule_format, OF r]
  have 4: "msg_done (last [Msg 1 (values_msg Pair_pot) [AStr ''pair.pot'', AInt 1, AInt 1]]) = 1"
    by blast
  from pair_info obtain pf1 pt1 nvals where
    info: "read_info_block pair_state 0 pair_file (zero_table, new_nvals zero_memory) = Inr (pf1, pt1, nvals)"
    and nv: "nvals 0 = 3" "nvals 1 = 2" by blast
  from pair_run obtain pt where
    res: "read_pot_table3 pair_build pair_globals zero_memory zero_table ''pair.pot'' pair_file
       pair_state = Inr pt" by blast
  have lay: "layout pair_build pair_globals = [(Pair_pot, 0), (Pair_pot, 1)]"
    by (simp add: layout_def pair_build_def pair_globals_def upt_rec)
  have "3 * num_pots pair_state + blocks_fields pair_state nvals (layout pair_build pair_globals) = 15"
    unfolding lay using nv by (simp add: function_fields_def pair_state_def)
  with c[where pstate = pair_state and pfile = pair_file and g = pair_globals
        and fresh = zero_memory and ?pt0.0 = zero_table and potential_filename = "''pair.pot''",
      THEN conjunct2, THEN conjunct2, THEN conjunct2,
      THEN conjunct2, THEN conjunct2, THEN conjunct2, THEN conjunct2,
      rule_format, of pt pf1 pt1 nvals] res info
  have 5: "15 \<le> length pair_file" by simp
  from 1 2 3 r 4 res 5 show ?thesis by blast
qed

text \<open>
  Claim C4 as stated fails: a header line with \<open>begin = 2\<close>, \<open>end = 0\<close> and 3 sample points
  gives the step \<open>-1\<close>, which is not positive, and the table is returned.
\<close>

theorem C4_counterexample:
  "\<exists>pt. read_pot_table3 pair_build single_globals zero_memory zero_table ''single.pot''
       descending_file single_state = Inr pt \<and> pt_begin pt 0 = 2 \<and> pt_end pt 0 = 0 \<and>
     pt_step pt 0 = Finite (- 1)"
  by (rule sum_case_Inr)
    (simp add: run_defs pair_build_def single_globals_def single_state_def descending_file_def
      zero_memory_def zero_table_def)

section \<open>The calculation table is an alias of the optimization table\<close>

lemma init_calc_table3_result:
  "init_calc_table3 st = st\<lparr>g_pot := (g_pot st)\<lparr>calc_pot := opt_pot (g_pot st)\<rparr>\<rparr>"
  by (simp add: init_calc_table3_def Let_def)

lemma init_calc_table3_fields:
  "calc_pot (g_pot (init_calc_table3 st)) = opt_pot (g_pot st)"
  "opt_pot (g_pot (init_calc_table3 st)) = opt_pot (g_pot st)"
  "heap (init_calc_table3 st) = heap st"
  by (simp_all add: init_calc_table3_result)

lemma deref_brk: "deref (m\<lparr>brk := a\<rparr>) t = deref m t"
  by (simp add: deref_def)

lemma Malloc_simp: "Malloc m = (brk m, m\<lparr>brk := Suc (brk m)\<rparr>)"
  by (simp add: Malloc_def)

lemma call_unfold:
  "read_pot_table3_call b g nvals0 fn pf ps st =
   (case read_pot_table3 b g (fresh_of nvals0 (heap st)) (deref (heap st) (opt_pot (g_pot st)))
           fn pf ps of
      Inl e \<Rightarrow> Inl e
    | Inr pt \<Rightarrow> Inr (init_calc_table3
        \<lparr>g_pot = (g_pot st)\<lparr>opt_pot := (opt_pot (g_pot st))\<lparr>t_len := pt_len pt,
                     t_idxlen := pt_idxlen pt, t_xcoord := Suc (brk (heap st)),
                     t_table := brk (heap st), t_d2tab := Suc (Suc (brk (heap st))),
                     t_idx := Suc (Suc (Suc (brk (heap st))))\<rparr>\<rparr>,
         heap = write_back pt ((opt_pot (g_pot st))\<lparr>t_len := pt_len pt,
                     t_idxlen := pt_idxlen pt, t_xcoord := Suc (brk (heap st)),
                     t_table := brk (heap st), t_d2tab := Suc (Suc (brk (heap st))),
                     t_idx := Suc (Suc (Suc (brk (heap st))))\<rparr>)
                  ((heap st)\<lparr>brk := Suc (Suc (Suc (Suc (brk (heap st)))))\<rparr>)\<rparr>))"
  by (simp add: read_pot_table3_call_def Malloc_simp Let_def deref_brk split: sum.split)

lemma call_Inr:
  assumes "read_pot_table3_call b g nvals0 fn pf ps st = Inr st'"
  shows "\<exists>pt opt. read_pot_table3 b g (fresh_of nvals0 (heap st)) (deref (heap st) (opt_pot (g_pot st)))
             fn pf ps = Inr pt \<and>
           opt = (opt_pot (g_pot st))\<lparr>t_len := pt_len pt, t_idxlen := pt_idxlen pt,
                   t_xcoord := Suc (brk (heap st)), t_table := brk (heap st),
                   t_d2tab := Suc (Suc (brk (heap st))),
                   t_idx := Suc (Suc (Suc (brk (heap st))))\<rparr> \<and>
           st' = init_calc_table3 \<lparr>g_pot = (g_pot st)\<lparr>opt_pot := opt\<rparr>,
                   heap = write_back pt opt
                     ((heap st)\<lparr>brk := Suc (Suc (Suc (Suc (brk (heap st)))))\<rparr>)\<rparr>"
proof (cases "read_pot_table3 b g (fresh_of nvals0 (heap st)) (deref (heap st) (opt_pot (g_pot st)))
             fn pf ps")
  case (Inl e)
  with assms show ?thesis by (simp add: call_unfold)
next
  case (Inr pt)
  with assms show ?thesis by (simp add: call_unfold)
qed

text \<open>
  When the arrays of the info block are distinct and allocated, the table seen through
  \<^verbatim>\<open>g_pot.opt_pot\<close> after the call is the table \<open>read_pot_table3\<close> returns.
\<close>

lemma call_table:
  assumes call: "read_pot_table3_call b g nvals0 fn pf ps st = Inr st'"
    and al: "info_arrays_allocated (heap st) (opt_pot (g_pot st))"
  shows "read_pot_table3 b g (fresh_of nvals0 (heap st)) (deref (heap st) (opt_pot (g_pot st)))
           fn pf ps = Inr (deref (heap st') (opt_pot (g_pot st')))"
proof -
  from call_Inr[OF call] obtain pt opt where
    res: "read_pot_table3 b g (fresh_of nvals0 (heap st)) (deref (heap st) (opt_pot (g_pot st)))
             fn pf ps = Inr pt"
    and opt: "opt = (opt_pot (g_pot st))\<lparr>t_len := pt_len pt, t_idxlen := pt_idxlen pt,
                   t_xcoord := Suc (brk (heap st)), t_table := brk (heap st),
                   t_d2tab := Suc (Suc (brk (heap st))),
                   t_idx := Suc (Suc (Suc (brk (heap st))))\<rparr>"
    and st': "st' = init_calc_table3 \<lparr>g_pot = (g_pot st)\<lparr>opt_pot := opt\<rparr>,
                   heap = write_back pt opt
                     ((heap st)\<lparr>brk := Suc (Suc (Suc (Suc (brk (heap st)))))\<rparr>)\<rparr>"
    by blast
  from read_pot_table3_Inr[OF res] obtain pf1 pt1 nvals where
    info: "read_info_block ps 0 pf (deref (heap st) (opt_pot (g_pot st)),
              new_nvals (fresh_of nvals0 (heap st))) = Inr (pf1, pt1, nvals)" by blast
  have nc: "pt_ncols pt = t_ncols (opt_pot (g_pot st))"
    using final_table(8)[OF info res] info_frame[OF info] by (simp add: deref_def)
  have "deref (heap st') (opt_pot (g_pot st')) = pt"
    using al nc
    by (intro pot_table.equality)
      (auto simp: st' opt init_calc_table3_fields deref_def write_back_def Let_def
        info_arrays_allocated_def from_nat_def fun_eq_iff)
  with res show ?thesis by simp
qed

text \<open>
  Claim C10. \<^verbatim>\<open>init_calc_table3\<close> makes every field of \<^verbatim>\<open>g_pot.calc_pot\<close> equal to the
  field of \<^verbatim>\<open>g_pot.opt_pot\<close>, the three integers and the ten pointers, and changes neither
  \<^verbatim>\<open>g_pot.opt_pot\<close> nor the memory. So after a call of \<^verbatim>\<open>read_pot_table3\<close> that returns,
  the two structs are equal; in every later memory the table seen through
  \<^verbatim>\<open>g_pot.calc_pot\<close> is the table seen through \<^verbatim>\<open>g_pot.opt_pot\<close>; and a value assigned
  through a pointer of \<^verbatim>\<open>g_pot.opt_pot\<close> is read through the pointer of
  \<^verbatim>\<open>g_pot.calc_pot\<close>.
\<close>

theorem C10_alias:
  "calc_pot (g_pot (init_calc_table3 st)) = opt_pot (g_pot st) \<and>
   opt_pot (g_pot (init_calc_table3 st)) = opt_pot (g_pot st) \<and>
   heap (init_calc_table3 st) = heap st \<and>
   (\<forall>st'. read_pot_table3_call b g nvals0 potential_filename pfile pstate st = Inr st' \<longrightarrow>
      calc_pot (g_pot st') = opt_pot (g_pot st') \<and>
      (\<forall>m. deref m (calc_pot (g_pot st')) = deref m (opt_pot (g_pot st'))) \<and>
      (\<forall>m i v. pt_table (deref (write_double (t_table (opt_pot (g_pot st'))) i v m)
                   (calc_pot (g_pot st'))) i = v) \<and>
      (\<forall>m i v. pt_begin (deref (write_double (t_begin (opt_pot (g_pot st'))) (int i) v m)
                   (calc_pot (g_pot st'))) i = v) \<and>
      (\<forall>m k v. pt_idx (deref (write_int (t_idx (opt_pot (g_pot st'))) (int k) v m)
                   (calc_pot (g_pot st'))) k = v))"
proof (intro conjI allI impI)
  fix st' assume "read_pot_table3_call b g nvals0 potential_filename pfile pstate st = Inr st'"
  from call_Inr[OF this] obtain st0 where "st' = init_calc_table3 st0" by blast
  then show eq: "calc_pot (g_pot st') = opt_pot (g_pot st')"
    by (simp add: init_calc_table3_fields)
  fix m
  show "deref m (calc_pot (g_pot st')) = deref m (opt_pot (g_pot st'))" by (simp add: eq)
  fix v
  show "pt_table (deref (write_double (t_table (opt_pot (g_pot st'))) i v m)
                   (calc_pot (g_pot st'))) i = v" for i
    by (simp add: eq deref_def write_double_def)
  show "pt_begin (deref (write_double (t_begin (opt_pot (g_pot st'))) (int i) v m)
                   (calc_pot (g_pot st'))) i = v" for i
    by (simp add: eq deref_def write_double_def)
next
  fix st' m k v
  assume "read_pot_table3_call b g nvals0 potential_filename pfile pstate st = Inr st'"
  from call_Inr[OF this] obtain st0 where "st' = init_calc_table3 st0" by blast
  then have eq: "calc_pot (g_pot st') = opt_pot (g_pot st')"
    by (simp add: init_calc_table3_fields)
  show "pt_idx (deref (write_int (t_idx (opt_pot (g_pot st'))) (int k) v m)
                   (calc_pot (g_pot st'))) k = v"
    by (simp add: eq deref_def write_int_def)
qed (simp_all add: init_calc_table3_fields)

lemma start_state_view:
  "fresh_of (\<lambda>_. 0) (heap start_state) = zero_memory"
  "deref (heap start_state) (opt_pot (g_pot start_state)) = zero_table"
  by (simp_all add: fresh_of_def start_state_def zero_memory_def deref_def zero_table_def)

theorem C10_alias_witness:
  "\<exists>st'. read_pot_table3_call pair_build pair_globals (\<lambda>_. 0) ''pair.pot'' pair_file pair_state
        start_state = Inr st' \<and>
     calc_pot (g_pot st') = opt_pot (g_pot st') \<and>
     pt_table (deref (write_double (t_table (opt_pot (g_pot st'))) 2 42 (heap st'))
        (calc_pot (g_pot st'))) 2 = 42"
proof -
  from pair_run obtain pt where
    res: "read_pot_table3 pair_build pair_globals zero_memory zero_table ''pair.pot'' pair_file
       pair_state = Inr pt" by blast
  then obtain st' where call:
    "read_pot_table3_call pair_build pair_globals (\<lambda>_. 0) ''pair.pot'' pair_file pair_state
        start_state = Inr st'"
    by (simp add: call_unfold start_state_view)
  from C10_alias[of start_state pair_build pair_globals "\<lambda>_. 0" "''pair.pot''" pair_file
      pair_state, THEN conjunct2, THEN conjunct2, THEN conjunct2, rule_format, OF call]
  show ?thesis using call by blast
qed

section \<open>The chemical potentials\<close>














end
